theory Spec2Isabelle
  imports
    Main
    "HOL-Library.Mapping"
    "HOL-Library.AList_Mapping"
    "HOL-Library.List_Lexorder"
    "HOL-Library.Char_ord"
begin

section \<open>Go standard library: the operations the scanner relies on\<close>

text \<open>
  Go strings are byte sequences; they are modelled as \<^typ>\<open>string\<close> (lists of
  \<^typ>\<open>char\<close>, one per byte). The order of \<open>sort.Strings\<close> is the bytewise
  lexicographic order, which is the order of \<^typ>\<open>string\<close> given by
  \<open>List_Lexorder\<close> over \<open>Char_ord\<close>.
\<close>

subsection \<open>Package strings\<close>

definition dquote :: char where
  "dquote = CHR 0x22"

definition squote :: char where
  "squote = CHR 0x27"

definition strings_HasPrefix :: "string \<Rightarrow> string \<Rightarrow> bool" where
  "strings_HasPrefix s p = (take (length p) s = p)"

definition strings_HasSuffix :: "string \<Rightarrow> string \<Rightarrow> bool" where
  "strings_HasSuffix s p = (length p \<le> length s \<and> drop (length s - length p) s = p)"

definition strings_TrimPrefix :: "string \<Rightarrow> string \<Rightarrow> string" where
  "strings_TrimPrefix s p = (if strings_HasPrefix s p then drop (length p) s else s)"

fun strings_Contains :: "string \<Rightarrow> string \<Rightarrow> bool" where
  "strings_Contains [] sub = (sub = [])"
| "strings_Contains (c # s) sub = (strings_HasPrefix (c # s) sub \<or> strings_Contains s sub)"

text \<open>\<open>strings.Index\<close> and \<open>bytes.Index\<close>: the first position of \<open>sub\<close>, or \<open>-1\<close>.\<close>

fun strings_Index :: "string \<Rightarrow> string \<Rightarrow> int" where
  "strings_Index [] sub = (if sub = [] then 0 else - 1)"
| "strings_Index (c # s) sub =
     (if strings_HasPrefix (c # s) sub then 0
      else (let i = strings_Index s sub in if i < 0 then - 1 else i + 1))"

text \<open>\<open>strings.LastIndex\<close>: the last position of \<open>sub\<close>, or \<open>-1\<close>.\<close>

fun strings_LastIndex :: "string \<Rightarrow> string \<Rightarrow> int" where
  "strings_LastIndex [] sub = (if sub = [] then 0 else - 1)"
| "strings_LastIndex (c # s) sub =
     (let i = strings_LastIndex s sub in
      if 0 \<le> i then i + 1
      else if strings_HasPrefix (c # s) sub then 0 else - 1)"

text \<open>\<open>strings.Cut\<close>: the text before and after the first \<open>sep\<close>, and whether it occurs.\<close>

definition strings_Cut :: "string \<Rightarrow> string \<Rightarrow> string \<times> string \<times> bool" where
  "strings_Cut s sep =
     (let i = strings_Index s sep in
      if 0 \<le> i then (take (nat i) s, drop (nat i + length sep) s, True)
      else (s, [], False))"

text \<open>\<open>strings.Split(s, "/")\<close> for a one-byte separator.\<close>

fun split_on :: "char \<Rightarrow> string \<Rightarrow> string list" where
  "split_on c [] = [[]]"
| "split_on c (x # xs) =
     (if x = c then [] # split_on c xs
      else (case split_on c xs of [] \<Rightarrow> [[x]] | h # t \<Rightarrow> (x # h) # t))"

text \<open>\<open>strings.Join\<close>.\<close>

fun strings_Join :: "string list \<Rightarrow> string \<Rightarrow> string" where
  "strings_Join [] sep = []"
| "strings_Join [e] sep = e"
| "strings_Join (e # es) sep = e @ sep @ strings_Join es sep"

text \<open>\<open>strings.Trim(s, "/")\<close>: all leading and trailing occurrences of the byte removed.\<close>

definition trim_char :: "char \<Rightarrow> string \<Rightarrow> string" where
  "trim_char c s = rev (dropWhile (\<lambda>x. x = c) (rev (dropWhile (\<lambda>x. x = c) s)))"

text \<open>\<open>strings.TrimRight(s, cutset)\<close>.\<close>

definition strings_TrimRight :: "string \<Rightarrow> string \<Rightarrow> string" where
  "strings_TrimRight s cutset = rev (dropWhile (\<lambda>x. x \<in> set cutset) (rev s))"

definition is_upper :: "char \<Rightarrow> bool" where
  "is_upper c = (CHR ''A'' \<le> c \<and> c \<le> CHR ''Z'')"

definition is_lower :: "char \<Rightarrow> bool" where
  "is_lower c = (CHR ''a'' \<le> c \<and> c \<le> CHR ''z'')"

definition is_digit :: "char \<Rightarrow> bool" where
  "is_digit c = (CHR ''0'' \<le> c \<and> c \<le> CHR ''9'')"

definition strings_ToLower :: "string \<Rightarrow> string" where
  "strings_ToLower s = map (\<lambda>c. if is_upper c then char_of (of_char c + (32::nat)) else c) s"

text \<open>Decimal rendering of a number, as \<open>%d\<close> prints it.\<close>

fun decimal :: "nat \<Rightarrow> string" where
  "decimal n =
     (if n < 10 then [char_of (48 + n)]
      else decimal (n div 10) @ [char_of (48 + n mod 10)])"

subsection \<open>Package path\<close>

text \<open>
  \<open>path.Clean\<close> by its documented rules, on the slash-separated elements: empty and
  \<open>.\<close> elements are dropped, a \<open>..\<close> removes the element before it, a \<open>..\<close> with nothing
  to remove is dropped in a rooted path and kept otherwise, and the empty result is \<open>.\<close>.
  The second argument of \<open>clean_elems\<close> is the output so far, last element first.
\<close>

fun clean_elems :: "bool \<Rightarrow> string list \<Rightarrow> string list \<Rightarrow> string list" where
  "clean_elems rooted [] out = rev out"
| "clean_elems rooted (e # es) out =
     (if e = [] \<or> e = ''.'' then clean_elems rooted es out
      else if e = ''..'' then
        (case out of
           [] \<Rightarrow> if rooted then clean_elems rooted es [] else clean_elems rooted es [''..'']
         | t # ts \<Rightarrow>
             if t \<noteq> ''..'' then clean_elems rooted es ts
             else clean_elems rooted es (''..'' # out))
      else clean_elems rooted es (e # out))"

definition path_Clean :: "string \<Rightarrow> string" where
  "path_Clean p =
     (if p = [] then ''.''
      else
        (let rooted = (hd p = CHR ''/'');
             out = (if rooted then ''/'' else []) @
                   strings_Join (clean_elems rooted (split_on CHR ''/'' p) []) ''/''
         in if out = [] then ''.'' else out))"

text \<open>
  \<open>path.Join\<close>: elements are joined with slashes, empty elements before the first
  non-empty one are skipped, and the result is cleaned; all elements empty gives
  the empty string.
\<close>

fun join_buf :: "string list \<Rightarrow> string \<Rightarrow> string" where
  "join_buf [] buf = buf"
| "join_buf (e # es) buf =
     (if buf \<noteq> [] \<or> e \<noteq> [] then
        join_buf es ((if buf \<noteq> [] then buf @ ''/'' else buf) @ e)
      else join_buf es buf)"

definition path_Join :: "string list \<Rightarrow> string" where
  "path_Join elems = (if concat elems = [] then [] else path_Clean (join_buf elems []))"

text \<open>\<open>path.Base\<close>: the last element of the path, trailing slashes removed first.\<close>

definition path_Base :: "string \<Rightarrow> string" where
  "path_Base p =
     (if p = [] then ''.''
      else
        (let q = rev (dropWhile (\<lambda>c. c = CHR ''/'') (rev p));
             i = strings_LastIndex q ''/'';
             b = (if 0 \<le> i then drop (nat i + 1) q else q)
         in if b = [] then ''/'' else b))"

subsection \<open>Package net/url\<close>

text \<open>
  A URL as \<open>url.URL\<close> holds it, and the functions of net/url after the Go 1.24
  sources. The model covers URLs without user information and without an IP literal as
  host, and it keeps no \<open>RawPath\<close> or \<open>RawFragment\<close> hint. Outside that range it
  differs from Go: \<open>url_Parse\<close> rejects an authority containing \<open>@\<close> or starting
  with \<open>[\<close>, and a path or fragment that was written in another escaping than the
  default one is printed in the default one. The URLs of the examples below are
  plain: a scheme, a host name and a path of letters, digits, dots, dashes and slashes.
\<close>

record URL =
  Scheme :: string
  Opaque :: string
  Host :: string
  Path :: string
  OmitHost :: bool
  ForceQuery :: bool
  RawQuery :: string
  Fragment :: string

definition empty_URL :: URL where
  "empty_URL = \<lparr>Scheme = [], Opaque = [], Host = [], Path = [], OmitHost = False,
     ForceQuery = False, RawQuery = [], Fragment = []\<rparr>"

text \<open>The escaping modes of net/url that a URL without user information needs.\<close>

datatype encoding = encodePath | encodeHost | encodeFragment

definition is_alnum :: "char \<Rightarrow> bool" where
  "is_alnum c = (is_lower c \<or> is_upper c \<or> is_digit c)"

definition shouldEscape :: "char \<Rightarrow> encoding \<Rightarrow> bool" where
  "shouldEscape c mode =
     (if is_alnum c then False
      else if mode = encodeHost \<and> c \<in> set (''!$&()*+,;=:[]<>'' @ [squote, dquote]) then False
      else if c \<in> set ''-_.~'' then False
      else if c \<in> set ''$&+,/:;=?@'' \<and> mode = encodePath then c = CHR ''?''
      else if c \<in> set ''$&+,/:;=?@'' \<and> mode = encodeFragment then False
      else if mode = encodeFragment \<and> c \<in> set ''!()*'' then False
      else True)"

definition upperhex :: "nat \<Rightarrow> char" where
  "upperhex n = ''0123456789ABCDEF'' ! n"

definition percent :: "char \<Rightarrow> string" where
  "percent c = [CHR ''%'', upperhex (of_char c div 16), upperhex (of_char c mod 16)]"

definition escape :: "string \<Rightarrow> encoding \<Rightarrow> string" where
  "escape s mode = concat (map (\<lambda>c. if shouldEscape c mode then percent c else [c]) s)"

definition ishex :: "char \<Rightarrow> bool" where
  "ishex c = (is_digit c \<or> (CHR ''a'' \<le> c \<and> c \<le> CHR ''f'') \<or> (CHR ''A'' \<le> c \<and> c \<le> CHR ''F''))"

definition unhex :: "char \<Rightarrow> nat" where
  "unhex c =
     (if is_digit c then of_char c - 48
      else if CHR ''a'' \<le> c \<and> c \<le> CHR ''f'' then of_char c - 97 + 10
      else if CHR ''A'' \<le> c \<and> c \<le> CHR ''F'' then of_char c - 65 + 10
      else 0)"

text \<open>
  \<open>unescape\<close>: percent-decoding with the validity checks of the mode; \<open>None\<close> is the
  \<open>EscapeError\<close> or \<open>InvalidHostError\<close>.
\<close>

fun unescape :: "string \<Rightarrow> encoding \<Rightarrow> string option" where
  "unescape [] mode = Some []"
| "unescape (c # s) mode =
     (if c = CHR ''%'' then
        (case s of
           h1 # h2 # rest \<Rightarrow>
             if \<not> ishex h1 \<or> \<not> ishex h2 then None
             else if mode = encodeHost \<and> unhex h1 < 8 \<and> [h1, h2] \<noteq> ''25'' then None
             else map_option (\<lambda>t. char_of (unhex h1 * 16 + unhex h2) # t) (unescape rest mode)
         | _ \<Rightarrow> None)
      else if mode = encodeHost \<and> of_char c < (128::nat) \<and> shouldEscape c encodeHost then None
      else map_option (\<lambda>t. c # t) (unescape s mode))"

definition EscapedPath :: "URL \<Rightarrow> string" where
  "EscapedPath u = (if Path u = ''*'' then ''*'' else escape (Path u) encodePath)"

text \<open>\<open>(*URL).String\<close>.\<close>

definition url_String :: "URL \<Rightarrow> string" where
  "url_String u =
     (let buf0 = (if Scheme u \<noteq> [] then Scheme u @ '':'' else []);
          buf1 =
            (if Opaque u \<noteq> [] then buf0 @ Opaque u
             else
               (let buf2 =
                      (if Scheme u \<noteq> [] \<or> Host u \<noteq> [] then
                         (if OmitHost u \<and> Host u = [] then buf0
                          else buf0 @ (if Host u \<noteq> [] \<or> Path u \<noteq> [] then ''//'' else [])
                                 @ (if Host u \<noteq> [] then escape (Host u) encodeHost else []))
                       else buf0);
                    path = EscapedPath u;
                    buf3 = (if path \<noteq> [] \<and> hd path \<noteq> CHR ''/'' \<and> Host u \<noteq> []
                            then buf2 @ ''/'' else buf2);
                    buf4 = (if buf3 = [] \<and>
                               strings_Contains (fst (strings_Cut path ''/'')) '':''
                            then ''./'' else buf3)
                in buf4 @ path));
          buf5 = (if ForceQuery u \<or> RawQuery u \<noteq> [] then buf1 @ ''?'' @ RawQuery u else buf1)
      in if Fragment u \<noteq> [] then buf5 @ ''#'' @ escape (Fragment u) encodeFragment else buf5)"

text \<open>\<open>(*URL).IsAbs\<close>.\<close>

definition IsAbs :: "URL \<Rightarrow> bool" where
  "IsAbs u = (Scheme u \<noteq> [])"

text \<open>\<open>getScheme\<close>: \<open>None\<close> is the error "missing protocol scheme".\<close>

definition getScheme :: "string \<Rightarrow> (string \<times> string) option" where
  "getScheme rawURL =
     (case rawURL of
        [] \<Rightarrow> Some ([], rawURL)
      | c # _ \<Rightarrow>
          if is_lower c \<or> is_upper c then
            (let pre = takeWhile (\<lambda>x. is_alnum x \<or> x \<in> set ''+-.'') rawURL
             in case drop (length pre) rawURL of
                  x # rest \<Rightarrow> if x = CHR '':'' then Some (pre, rest) else Some ([], rawURL)
                | [] \<Rightarrow> Some ([], rawURL))
          else if c = CHR '':'' then None
          else Some ([], rawURL))"

definition stringContainsCTLByte :: "string \<Rightarrow> bool" where
  "stringContainsCTLByte s = (\<exists>c \<in> set s. of_char c < (32::nat) \<or> of_char c = (127::nat))"

definition validOptionalPort :: "string \<Rightarrow> bool" where
  "validOptionalPort port =
     (case port of [] \<Rightarrow> True | c # ds \<Rightarrow> c = CHR '':'' \<and> (\<forall>d \<in> set ds. is_digit d))"

text \<open>\<open>parseAuthority\<close> and \<open>parseHost\<close> for an authority that is a host with an optional port.\<close>

definition parseAuthority :: "string \<Rightarrow> string option" where
  "parseAuthority authority =
     (if CHR ''@'' \<in> set authority \<or> strings_HasPrefix authority ''['' then None
      else
        (let i = strings_LastIndex authority '':''
         in if 0 \<le> i \<and> \<not> validOptionalPort (drop (nat i) authority) then None
            else unescape authority encodeHost))"

text \<open>\<open>parse\<close> with \<open>viaRequest = false\<close>, and \<open>url.Parse\<close>; \<open>None\<close> is a parse error.\<close>

definition parse :: "string \<Rightarrow> URL option" where
  "parse rawURL =
     (if stringContainsCTLByte rawURL then None
      else if rawURL = ''*'' then Some (empty_URL\<lparr>Path := ''*''\<rparr>)
      else
        (case getScheme rawURL of
           None \<Rightarrow> None
         | Some (scheme0, rest0) \<Rightarrow>
             (let scheme = strings_ToLower scheme0;
                  force = (strings_HasSuffix rest0 ''?'' \<and> count_list rest0 CHR ''?'' = 1);
                  rest1 = (if force then butlast rest0 else fst (strings_Cut rest0 ''?''));
                  query = (if force then [] else fst (snd (strings_Cut rest0 ''?'')));
                  u0 = empty_URL\<lparr>Scheme := scheme, ForceQuery := force, RawQuery := query\<rparr>
              in if \<not> strings_HasPrefix rest1 ''/'' \<and> scheme \<noteq> [] then Some (u0\<lparr>Opaque := rest1\<rparr>)
                 else if \<not> strings_HasPrefix rest1 ''/'' \<and>
                         strings_Contains (fst (strings_Cut rest1 ''/'')) '':'' then None
                 else if (scheme \<noteq> [] \<or> \<not> strings_HasPrefix rest1 ''///'') \<and>
                         strings_HasPrefix rest1 ''//'' then
                   (let a = drop 2 rest1;
                        i = strings_Index a ''/'';
                        authority = (if 0 \<le> i then take (nat i) a else a);
                        rest2 = (if 0 \<le> i then drop (nat i) a else [])
                    in case parseAuthority authority of
                         None \<Rightarrow> None
                       | Some host \<Rightarrow>
                           map_option (\<lambda>p. u0\<lparr>Host := host, Path := p\<rparr>)
                             (unescape rest2 encodePath))
                 else
                   map_option
                     (\<lambda>p. u0\<lparr>Path := p,
                              OmitHost := (scheme \<noteq> [] \<and> strings_HasPrefix rest1 ''/'')\<rparr>)
                     (unescape rest1 encodePath))))"

definition url_Parse :: "string \<Rightarrow> URL option" where
  "url_Parse rawURL =
     (let u = fst (strings_Cut rawURL ''#''); frag = fst (snd (strings_Cut rawURL ''#''))
      in case parse u of
           None \<Rightarrow> None
         | Some url \<Rightarrow>
             if frag = [] then Some url
             else map_option (\<lambda>f. url\<lparr>Fragment := f\<rparr>) (unescape frag encodeFragment))"

text \<open>
  \<open>resolvePath\<close>: the reference path is placed after the last slash of the base path
  and the dot elements are then resolved left to right. The state of the loop is the
  text written so far (always starting with a slash) and the flag \<open>first\<close>.
\<close>

fun resolve_elems :: "string list \<Rightarrow> string \<times> bool \<Rightarrow> string \<times> bool" where
  "resolve_elems [] st = st"
| "resolve_elems (elem # es) (dst, first) =
     (if elem = ''.'' then resolve_elems es (dst, False)
      else if elem = ''..'' then
        (let str = tl dst; index = strings_LastIndex str ''/''
         in if index = - 1 then resolve_elems es (''/'', True)
            else resolve_elems es (''/'' @ take (nat index) str, first))
      else resolve_elems es ((if first then dst else dst @ ''/'') @ elem, False))"

definition resolvePath :: "string \<Rightarrow> string \<Rightarrow> string" where
  "resolvePath base ref =
     (let full =
            (if ref = [] then base
             else if hd ref \<noteq> CHR ''/'' then
               take (nat (strings_LastIndex base ''/'' + 1)) base @ ref
             else ref)
      in if full = [] then []
         else
           (let elems = split_on CHR ''/'' full;
                dst = fst (resolve_elems elems (''/'', True));
                r = (if last elems = ''.'' \<or> last elems = ''..'' then dst @ ''/'' else dst)
            in if 1 < length r \<and> r ! 1 = CHR ''/'' then tl r else r))"

text \<open>\<open>setPath\<close> as \<open>ResolveReference\<close> uses it: an error leaves the path as it was.\<close>

definition setPath :: "URL \<Rightarrow> string \<Rightarrow> URL" where
  "setPath u p = (case unescape p encodePath of None \<Rightarrow> u | Some q \<Rightarrow> u\<lparr>Path := q\<rparr>)"

text \<open>\<open>(*URL).ResolveReference\<close>.\<close>

definition ResolveReference :: "URL \<Rightarrow> URL \<Rightarrow> URL" where
  "ResolveReference u ref =
     (let url0 = (if Scheme ref = [] then ref\<lparr>Scheme := Scheme u\<rparr> else ref)
      in if Scheme ref \<noteq> [] \<or> Host ref \<noteq> [] then
           setPath url0 (resolvePath (EscapedPath ref) [])
         else if Opaque ref \<noteq> [] then url0\<lparr>Host := [], Path := []\<rparr>
         else
           (let url1 =
                  (if Path ref = [] \<and> \<not> ForceQuery ref \<and> RawQuery ref = [] then
                     (if Fragment ref = [] then
                        url0\<lparr>RawQuery := RawQuery u, Fragment := Fragment u\<rparr>
                      else url0\<lparr>RawQuery := RawQuery u\<rparr>)
                   else url0)
            in if Path ref = [] \<and> Opaque u \<noteq> [] then
                 url1\<lparr>Opaque := Opaque u, Host := [], Path := []\<rparr>
               else
                 setPath (url1\<lparr>Host := Host u\<rparr>)
                   (resolvePath (EscapedPath u) (EscapedPath ref))))"

subsection \<open>Package regexp\<close>

text \<open>
  The expressions of the scanner are built from literals, classes of bytes, repetitions
  of a class, sequences, alternatives, an optional part and capture groups. Go's
  \<open>regexp\<close> returns the leftmost match and, among the matches at that position, the one a
  backtracking search finds first: \<open>rmatch\<close> lists, in that order of preference, every
  way the expression matches at the start of the text, as the text left over and the
  captured groups. Bytes stand for runes (the texts of interest are ASCII). In the
  expressions of the scanner no group stands inside an alternative or an optional part,
  so every match has all its groups.
\<close>

datatype cclass = OneOf string | NoneOf string

fun in_class :: "char \<Rightarrow> cclass \<Rightarrow> bool" where
  "in_class c (OneOf cs) = (c \<in> set cs)"
| "in_class c (NoneOf cs) = (c \<notin> set cs)"

datatype regex =
    Lit string
  | One cclass
  | Star cclass
  | LazyStar cclass
  | Plus cclass
  | Seq regex regex
  | Alt regex regex
  | Opt regex
  | Group regex

fun rmatch :: "regex \<Rightarrow> string \<Rightarrow> (string \<times> string list) list" where
  "rmatch (Lit l) s = (if strings_HasPrefix s l then [(drop (length l) s, [])] else [])"
| "rmatch (One cl) s =
     (case s of [] \<Rightarrow> [] | c # t \<Rightarrow> if in_class c cl then [(t, [])] else [])"
| "rmatch (Star cl) s =
     map (\<lambda>k. (drop k s, [])) (rev [0 ..< Suc (length (takeWhile (\<lambda>c. in_class c cl) s))])"
| "rmatch (LazyStar cl) s =
     map (\<lambda>k. (drop k s, [])) [0 ..< Suc (length (takeWhile (\<lambda>c. in_class c cl) s))]"
| "rmatch (Plus cl) s =
     map (\<lambda>k. (drop k s, [])) (rev [1 ..< Suc (length (takeWhile (\<lambda>c. in_class c cl) s))])"
| "rmatch (Seq a b) s =
     concat (map (\<lambda>(r, gs). map (\<lambda>(r', gs'). (r', gs @ gs')) (rmatch b r)) (rmatch a s))"
| "rmatch (Alt a b) s = rmatch a s @ rmatch b s"
| "rmatch (Opt a) s = rmatch a s @ [(s, [])]"
| "rmatch (Group a) s =
     map (\<lambda>(r, gs). (r, take (length s - length r) s # gs)) (rmatch a s)"

definition seq :: "regex list \<Rightarrow> regex" where
  "seq rs = foldr Seq rs (Lit [])"

text \<open>
  The leftmost match in a text: its offset, the matched text followed by the groups
  (the slice \<open>FindSubmatch\<close> returns).
\<close>

fun find_first :: "regex \<Rightarrow> string \<Rightarrow> (nat \<times> string list) option" where
  "find_first r [] =
     (case rmatch r [] of [] \<Rightarrow> None | (rest, gs) # _ \<Rightarrow> Some (0, [] # gs))"
| "find_first r (c # t) =
     (case rmatch r (c # t) of
        (rest, gs) # _ \<Rightarrow> Some (0, take (length (c # t) - length rest) (c # t) # gs)
      | [] \<Rightarrow> map_option (\<lambda>(i, m). (Suc i, m)) (find_first r t))"

text \<open>\<open>(*Regexp).FindSubmatch\<close>: the empty list is the nil slice of no match.\<close>

definition FindSubmatch :: "regex \<Rightarrow> string \<Rightarrow> string list" where
  "FindSubmatch r s = (case find_first r s of None \<Rightarrow> [] | Some (i, m) \<Rightarrow> m)"

text \<open>
  \<open>(*Regexp).FindAllSubmatch(b, -1)\<close>: the successive matches, each search starting
  where the previous match ended. The flag says that a match ended at the current
  position: an empty match there is not reported, and after an empty match the search
  moves one byte on.
\<close>

function findAll :: "regex \<Rightarrow> bool \<Rightarrow> string \<Rightarrow> string list list" where
  "findAll r prev s =
     (case find_first r s of
        None \<Rightarrow> []
      | Some (i, m) \<Rightarrow>
          if i + length (hd m) = 0 then
            (if prev then [] else [m]) @ (if s = [] then [] else findAll r False (tl s))
          else m # findAll r True (drop (i + length (hd m)) s))"
  by pat_completeness auto
termination
proof (relation "measure (\<lambda>(r, prev, s). length s)")
  fix r :: regex and prev :: bool and s :: string and x2 i m
  assume "find_first r s = Some x2" and "(i, m) = x2" and "\<not> i + length (hd m) = 0"
  then have "s \<noteq> []"
    by (cases s) (auto split: list.splits)
  then show "((r, True, drop (i + length (hd m)) s), (r, prev, s))
             \<in> measure (\<lambda>(r, prev, s). length s)"
    using \<open>\<not> i + length (hd m) = 0\<close> by simp
qed (auto simp: neq_Nil_conv)

definition FindAllSubmatch :: "regex \<Rightarrow> string \<Rightarrow> string list list" where
  "FindAllSubmatch r s = findAll r False s"

subsection \<open>Error values\<close>

text \<open>
  A Go error is a reference. \<open>errors.New\<close> allocates a new value at every call, and two
  such values are equal only if they come from the same allocation. Within one scan
  every \<open>errors.New\<close> of the scanner is executed at most once, so the allocation is
  identified by the source line of the call (\<open>ErrorString\<close>). \<open>WrapError\<close> is the result
  of \<open>fmt.Errorf\<close> with \<open>%w\<close>: its text and the error it wraps. \<open>Foreign\<close> is an error
  made outside the scanner (by the fetcher or a library), of which only the text matters.
\<close>

datatype go_error =
    ErrorString nat string
  | WrapError string go_error
  | Foreign string

fun Error :: "go_error \<Rightarrow> string" where
  "Error (ErrorString site text) = text"
| "Error (WrapError text inner) = text"
| "Error (Foreign text) = text"

definition errors_New :: "nat \<Rightarrow> string \<Rightarrow> go_error" where
  "errors_New site text = ErrorString site text"

text \<open>\<open>fmt.Errorf(prefix + "%w", err)\<close>.\<close>

definition Errorf_w :: "string \<Rightarrow> go_error \<Rightarrow> go_error" where
  "Errorf_w prefix err = WrapError (prefix @ Error err) err"

text \<open>\<open>errors.Is\<close>: the target is looked for along the chain of wrapped errors.\<close>

fun errors_Is :: "go_error \<Rightarrow> go_error \<Rightarrow> bool" where
  "errors_Is (WrapError text inner) target =
     (WrapError text inner = target \<or> errors_Is inner target)"
| "errors_Is err target = (err = target)"

text \<open>\<open>errors.Is\<close> on an error variable that may be nil, with a non-nil target.\<close>

definition errors_Is_opt :: "go_error option \<Rightarrow> go_error \<Rightarrow> bool" where
  "errors_Is_opt err target = (case err of None \<Rightarrow> False | Some e \<Rightarrow> errors_Is e target)"

subsection \<open>The fetcher interface\<close>

text \<open>
  \<open>Fetcher.Fetch\<close> returns a reader and the final URL, or an error. A reader is modelled
  by what \<open>io.ReadAll\<close> gives on it: the content or a read error. A fetcher is a function
  of the URL (the same answer each time it is asked).
\<close>

type_synonym reader = "go_error + string"

type_synonym fetch_result = "go_error + (reader \<times> string)"

type_synonym fetcher = "string \<Rightarrow> fetch_result"

text \<open>
  The error \<open>HTTPFetcher.Fetch\<close> returns when the response that ended its profile loop
  has a status other than 0 and 200. A response of status 403 never ends the loop: it
  makes \<open>Fetch\<close> try the next profile, and when every profile is used up \<open>Fetch\<close> returns
  the error \<open>all TLS profiles failed\<close> instead (see \<open>HTTPFetcher_Fetch\<close> below).
\<close>

definition bad_status_error :: "string \<Rightarrow> string \<Rightarrow> nat \<Rightarrow> go_error" where
  "bad_status_error targetURL finalURL status =
     Foreign (''http_fetcher: bad status code fetching '' @ targetURL @
              '' (final URL: '' @ finalURL @ ''): '' @ decimal status)"

subsection \<open>The HTTP fetcher\<close>












section \<open>The scanner: manifest routes and assets\<close>

text \<open>
  A value exported by the script engine (\<open>interface{}\<close> in the source): the manifest
  maps route paths to such values.
\<close>

datatype jsvalue =
    JNull
  | JBool bool
  | JNumber int
  | JString string
  | JArray "jsvalue list"
  | JObject "(string \<times> jsvalue) list"

type_synonym manifest = "(string, jsvalue) mapping"

type_synonym routes = "(string, string list) mapping"

definition is_script_or_style :: "string \<Rightarrow> bool" where
  "is_script_or_style p = (strings_HasSuffix p ''.js'' \<or> strings_HasSuffix p ''.css'')"

text \<open>The absolute URL of one asset path of the manifest.\<close>

definition fullAssetURL :: "URL \<Rightarrow> string \<Rightarrow> string" where
  "fullAssetURL baseURLParsed assetPath =
     url_String (empty_URL\<lparr>Scheme := Scheme baseURLParsed, Host := Host baseURLParsed,
       Path := path_Join [Path baseURLParsed, ''_next'', strings_TrimPrefix assetPath ''/'']\<rparr>)"

text \<open>
  The inner loop of \<open>extractRoutesAndAssets\<close> over the assets of one route: the state
  is the list \<open>routeAssets\<close> and the set \<open>allAssets\<close>.
\<close>

fun routeAssetsLoop ::
  "URL \<Rightarrow> jsvalue list \<Rightarrow> string list \<times> string set \<Rightarrow> string list \<times> string set" where
  "routeAssetsLoop b [] st = st"
| "routeAssetsLoop b (JString assetPath # rest) (routeAssets, allAssets) =
     (if \<not> is_script_or_style assetPath then routeAssetsLoop b rest (routeAssets, allAssets)
      else
        (let u = fullAssetURL b assetPath
         in routeAssetsLoop b rest (routeAssets @ [u], insert u allAssets)))"
| "routeAssetsLoop b (_ # rest) st = routeAssetsLoop b rest st"

text \<open>
  The value of a route as an asset list: an array as it is, a single string ending in
  a script or stylesheet extension as a one-element list, anything else skipped.
\<close>

fun assetListOf :: "jsvalue option \<Rightarrow> jsvalue list option" where
  "assetListOf (Some (JArray assetList)) = Some assetList"
| "assetListOf (Some (JString assetStr)) =
     (if is_script_or_style assetStr then Some [JString assetStr] else None)"
| "assetListOf _ = None"

text \<open>The body of the outer loop, for one key of the manifest.\<close>

definition routeStep ::
  "URL \<Rightarrow> manifest \<Rightarrow> string \<Rightarrow> routes \<times> string set \<Rightarrow> routes \<times> string set" where
  "routeStep b manifestData routePath st =
     (if strings_HasPrefix routePath ''__'' \<or> routePath = ''sortedPages'' then st
      else
        (case assetListOf (Mapping.lookup manifestData routePath) of
           None \<Rightarrow> st
         | Some assetList \<Rightarrow>
             (let (routeAssets, allAssets) = routeAssetsLoop b assetList ([], snd st)
              in (Mapping.update routePath (sort routeAssets) (fst st), allAssets))))"

text \<open>
  \<open>extractRoutesAndAssets\<close>. Go visits the keys of a map in no fixed order; the model
  visits them in sorted order. An asset base that does not parse is replaced by the
  empty URL, as in the source.
\<close>

definition extractRoutesAndAssets :: "manifest \<Rightarrow> string \<Rightarrow> routes \<times> string set" where
  "extractRoutesAndAssets manifestData assetBaseURL =
     (let baseURLParsed = (case url_Parse assetBaseURL of None \<Rightarrow> empty_URL | Some u \<Rightarrow> u)
      in foldl (\<lambda>st routePath. routeStep baseURLParsed manifestData routePath st)
           (Mapping.empty, {}) (Mapping.ordered_keys manifestData))"

section \<open>The version detector\<close>

subsection \<open>The expressions\<close>

definition bslash :: char where
  "bslash = CHR 0x5C"

definition perl_d :: cclass where
  "perl_d = OneOf ''0123456789''"

definition perl_s :: cclass where
  "perl_s = OneOf [CHR 0x09, CHR 0x0A, CHR 0x0C, CHR 0x0D, CHR '' '']"

definition any_char :: cclass where
  "any_char = NoneOf [CHR 0x0A]"

definition quote :: cclass where
  "quote = OneOf [dquote, squote]"

definition ident_char :: cclass where
  "ident_char =
     OneOf ''abcdefghijklmnopqrstuvwxyzABCDEFGHIJKLMNOPQRSTUVWXYZ0123456789_$''"

text \<open>
  \<open>simpleVersionRegex\<close> is the raw string \<^verbatim>\<open>["'](\d+\.\d+\.\d+[^"']*)["']\<close>:
  a quote, digits, a dot, digits, a dot, digits, any bytes but quotes, a quote.
\<close>

definition simpleVersionRegex :: regex where
  "simpleVersionRegex =
     seq [One quote,
          Group (seq [Plus perl_d, Lit ''.'', Plus perl_d, Lit ''.'', Plus perl_d,
                      Star (NoneOf [dquote, squote])]),
          One quote]"

text \<open>
  The other expressions are raw strings in which the backslashes of the version part are
  doubled. In \<^verbatim>\<open>\\d+\<close> the expression \<^verbatim>\<open>\\\<close> is a literal backslash and
  \<^verbatim>\<open>d+\<close> a run of the letter d; \<^verbatim>\<open>\\.\<close> is a backslash and then any byte
  but a newline; the class \<^verbatim>\<open>[\\s\\S]\<close> holds the backslash and the letters s and S.
  This is the text \<open>escaped_version\<close> matches: a backslash, letters d, a backslash, a
  byte, and so on, not digits and dots.
\<close>

definition escaped_version :: "regex list" where
  "escaped_version =
     [Lit [bslash], Plus (OneOf ''d''), Lit [bslash], One any_char,
      Lit [bslash], Plus (OneOf ''d''), Lit [bslash], One any_char,
      Lit [bslash], Plus (OneOf ''d'')]"

definition window_next_open :: "regex list" where
  "window_next_open =
     [Lit ''window.next'', Star perl_s, Lit ''='', Star perl_s, Lit ''{'',
      LazyStar (OneOf [bslash, CHR ''s'', CHR ''S'']),
      Lit ''version'', Star perl_s, Lit '':'', Star perl_s]"

text \<open>
  \<open>windowNextDirectVersionRegex\<close>:
  \<^verbatim>\<open>window\.next\s*=\s*{[\\s\\S]*?version\s*:\s*[\"\'](\\d+\\.\\d+\\.\\d+[^\\\"\']*)[\"\']\<close>
\<close>

definition windowNextDirectVersionRegex :: regex where
  "windowNextDirectVersionRegex =
     seq (window_next_open @
          [One quote,
           Group (seq (escaped_version @ [Star (NoneOf [bslash, dquote, squote])])),
           One quote])"

text \<open>
  \<open>windowNextVarVersionRegex\<close>:
  \<^verbatim>\<open>window\.next\s*=\s*{[\\s\\S]*?version\s*:\s*([a-zA-Z0-9_$]+(?:\\.[a-zA-Z0-9_$]+)?)\<close>
\<close>

definition windowNextVarVersionRegex :: regex where
  "windowNextVarVersionRegex =
     seq (window_next_open @
          [Group (seq [Plus ident_char,
                       Opt (seq [Lit [bslash], One any_char, Plus ident_char])])])"

text \<open>
  \<open>assignmentVersionRegex\<close>:
  \<^verbatim>\<open>(?:let|var|const)\s+[a-zA-Z0-9_$]+\s*=\s*[\"\'](\\d+\\.\\d+\\.\\d+[^\"\']*)[\"\']\<close>
\<close>

definition assignmentVersionRegex :: regex where
  "assignmentVersionRegex =
     seq [Alt (Lit ''let'') (Alt (Lit ''var'') (Lit ''const'')),
          Plus perl_s, Plus ident_char, Star perl_s, Lit ''='', Star perl_s,
          One quote,
          Group (seq (escaped_version @ [Star (NoneOf [dquote, squote])])),
          One quote]"

subsection \<open>The strategies\<close>

text \<open>
  \<open>fetchFunc\<close>: the content of an asset, or failure. The stage name it takes in the
  source is only logged; logging is not modelled.
\<close>

type_synonym fetchFunc = "string \<Rightarrow> string option"

text \<open>
  \<open>detectWithWindowNextPattern\<close>: the first URL whose content has the direct pattern,
  or has the variable pattern and then a version assignment or any quoted version.
\<close>

fun detectWithWindowNextPattern :: "string list \<Rightarrow> fetchFunc \<Rightarrow> string \<times> bool" where
  "detectWithWindowNextPattern [] fetchContent = ([], False)"
| "detectWithWindowNextPattern (assetURL # urls) fetchContent =
     (case fetchContent assetURL of
        None \<Rightarrow> detectWithWindowNextPattern urls fetchContent
      | Some contentBytes \<Rightarrow>
          (let matchDirect = FindSubmatch windowNextDirectVersionRegex contentBytes
           in if 1 < length matchDirect then (matchDirect ! 1, True)
              else if FindSubmatch windowNextVarVersionRegex contentBytes \<noteq> [] then
                (let assignmentMatch = FindSubmatch assignmentVersionRegex contentBytes
                 in if 1 < length assignmentMatch then (assignmentMatch ! 1, True)
                    else
                      (let simpleMatch = FindSubmatch simpleVersionRegex contentBytes
                       in if 1 < length simpleMatch then (simpleMatch ! 1, True)
                          else detectWithWindowNextPattern urls fetchContent))
              else detectWithWindowNextPattern urls fetchContent))"

text \<open>
  The context of a match: 30 bytes on each side of the first place where the matched
  text occurs in the content (\<open>bytes.Index\<close>), cut at the ends of the content.
\<close>

definition contextWindow :: int where
  "contextWindow = 30"

definition matchContext :: "string \<Rightarrow> string \<Rightarrow> string" where
  "matchContext contentBytes fullMatch =
     (let matchIndex = strings_Index contentBytes fullMatch;
          start = max 0 (matchIndex - contextWindow);
          end = min (int (length contentBytes))
                    (matchIndex + int (length fullMatch) + contextWindow)
      in take (nat end - nat start) (drop (nat start) contentBytes))"

definition isReact :: "string \<Rightarrow> bool" where
  "isReact context =
     (strings_Contains context ''react'' \<or> strings_Contains context ''React'' \<or>
      strings_Contains context ''react-dom'')"

definition isReconciler :: "string \<Rightarrow> bool" where
  "isReconciler context = strings_Contains context ''reconcilerVersion''"

text \<open>
  What the scan does with one match (the slice of the matched text and the captured
  version): the state is the pair of the Next.js and the React version found so far.
\<close>

definition classifyMatch :: "string \<Rightarrow> string list \<Rightarrow> string \<times> string \<Rightarrow> string \<times> string" where
  "classifyMatch contentBytes match st =
     (let nextVersion = fst st; reactVersion = snd st;
          candidateVersion = match ! 1;
          context = matchContext contentBytes (match ! 0)
      in if isReact context \<and> reactVersion = [] then (nextVersion, candidateVersion)
         else if \<not> isReact context \<and> \<not> isReconciler context \<and> nextVersion = []
         then (candidateVersion, reactVersion)
         else (nextVersion, reactVersion))"

text \<open>The loop over the matches of one file, with its \<open>continue\<close> and \<open>break\<close>.\<close>

fun scanMatches :: "string \<Rightarrow> string list list \<Rightarrow> string \<times> string \<Rightarrow> string \<times> string" where
  "scanMatches contentBytes [] st = st"
| "scanMatches contentBytes (match # matches) st =
     (if length match < 2 then scanMatches contentBytes matches st
      else if fst st \<noteq> [] \<and> snd st \<noteq> [] then st
      else
        (let st' = classifyMatch contentBytes match st
         in if fst st' \<noteq> [] \<and> snd st' \<noteq> [] then st'
            else scanMatches contentBytes matches st'))"

text \<open>The loop over the URLs; \<open>detectWithSimpleContextPattern\<close> starts it.\<close>

fun scanURLs :: "string list \<Rightarrow> fetchFunc \<Rightarrow> string \<times> string \<Rightarrow> string \<times> string" where
  "scanURLs [] fetchContent st = st"
| "scanURLs (assetURL # urls) fetchContent st =
     (if fst st \<noteq> [] \<and> snd st \<noteq> [] then st
      else
        (case fetchContent assetURL of
           None \<Rightarrow> scanURLs urls fetchContent st
         | Some contentBytes \<Rightarrow>
             scanURLs urls fetchContent
               (scanMatches contentBytes (FindAllSubmatch simpleVersionRegex contentBytes) st)))"

definition detectWithSimpleContextPattern ::
  "string list \<Rightarrow> fetchFunc \<Rightarrow> string \<Rightarrow> string \<Rightarrow> string \<times> string" where
  "detectWithSimpleContextPattern urls fetchContent currentNextVersion currentReactVersion =
     scanURLs urls fetchContent (currentNextVersion, currentReactVersion)"

text \<open>The URL probed by \<open>detectWithAppManifestProbe\<close>.\<close>

definition appManifestURLOf :: "URL \<Rightarrow> string \<Rightarrow> string" where
  "appManifestURLOf assetBaseURL buildID =
     url_String (ResolveReference assetBaseURL
       (empty_URL\<lparr>Path := path_Join [''_next/static'', buildID, ''_appManifest.js'']\<rparr>))"

text \<open>
  \<open>detectWithAppManifestProbe\<close>; a nil asset base or fetcher is \<open>None\<close>.
\<close>

definition detectWithAppManifestProbe ::
  "string \<Rightarrow> URL option \<Rightarrow> fetcher option \<Rightarrow> string \<times> bool" where
  "detectWithAppManifestProbe buildID assetBaseURL fetcher =
     (case (assetBaseURL, fetcher) of
        (Some base, Some fetch) \<Rightarrow>
          if buildID = [] then (''Unknown (Missing data)'', False)
          else
            (case fetch (appManifestURLOf base buildID) of
               Inr _ \<Rightarrow> (''>=13 (App Router Likely)'', True)
             | Inl err \<Rightarrow>
                 (let errStr = Error err
                  in if strings_Contains errStr ''bad status code'' \<and>
                        (strings_Contains errStr '': 404'' \<or> strings_Contains errStr '': 403'')
                     then (''<13 / Pages Router Likely'', True)
                     else (''Unknown (Error probing)'', False)))
      | _ \<Rightarrow> (''Unknown (Missing data)'', False))"

subsection \<open>Detect\<close>

definition isPriorityURL :: "string \<Rightarrow> bool" where
  "isPriorityURL u =
     (case url_Parse u of
        None \<Rightarrow> False
      | Some parsedURL \<Rightarrow>
          strings_Contains (path_Base (Path parsedURL)) ''framework'' \<or>
          strings_Contains (path_Base (Path parsedURL)) ''main'')"

text \<open>
  The capacity of a string slice that started empty and grew by \<open>n\<close> single appends:
  the Go runtime doubles it (1, 2, 4, ...; exact up to 256 elements).
\<close>

fun grown_cap :: "nat \<Rightarrow> nat" where
  "grown_cap 0 = 0"
| "grown_cap (Suc n) = (if Suc n \<le> grown_cap n then grown_cap n else max 1 (2 * grown_cap n))"

text \<open>
  \<open>allURLs := append(priorityURLs, otherURLs...)\<close> followed by \<open>sort.Strings(allURLs)\<close>:
  when the spare capacity of \<open>priorityURLs\<close> holds the other URLs, \<open>append\<close> writes them
  into the same array, and sorting \<open>allURLs\<close> then rearranges what \<open>priorityURLs\<close>
  shows, which becomes the first elements of the sorted whole. The result is the pair
  of \<open>priorityURLs\<close> and \<open>allURLs\<close> after the sort.
\<close>

definition appendAndSort :: "string list \<Rightarrow> string list \<Rightarrow> string list \<times> string list" where
  "appendAndSort priorityURLs otherURLs =
     (let allURLs = sort (priorityURLs @ otherURLs)
      in if length priorityURLs + length otherURLs \<le> grown_cap (length priorityURLs)
         then (take (length priorityURLs) allURLs, allURLs)
         else (priorityURLs, allURLs))"

text \<open>The helper \<open>fetchContent\<close> of \<open>Detect\<close>.\<close>

definition fetchContentOf :: "fetcher \<Rightarrow> fetchFunc" where
  "fetchContentOf fetch assetURL =
     (case fetch assetURL of
        Inl err \<Rightarrow> None
      | Inr (reader, finalURL) \<Rightarrow> (case reader of Inl readErr \<Rightarrow> None | Inr content \<Rightarrow> Some content))"

text \<open>
  \<open>HeuristicAssetScannerDetector.Detect\<close>. The keys of \<open>jsAssetURLs\<close> are visited in no
  fixed order and each list is sorted afterwards, so the lists are the sorted lists of
  the priority URLs and of the others.
\<close>

definition Detect ::
  "string \<Rightarrow> string set \<Rightarrow> URL option \<Rightarrow> fetcher option \<Rightarrow> string \<times> string" where
  "Detect buildID jsAssetURLs assetBaseURL fetcher =
     (case fetcher of
        None \<Rightarrow> (''Unknown (Missing fetcher)'', ''Unknown (Missing fetcher)'')
      | Some fetch \<Rightarrow>
          (let urls = sorted_list_of_set jsAssetURLs;
               otherURLs = filter (\<lambda>u. \<not> isPriorityURL u) urls;
               (priorityURLs, allURLs) = appendAndSort (filter isPriorityURL urls) otherURLs;
               fetchContent = fetchContentOf fetch;
               (foundVersion, found) = detectWithWindowNextPattern priorityURLs fetchContent;
               next1 = (if found then foundVersion else []);
               reactCand = snd (detectWithSimpleContextPattern priorityURLs fetchContent next1 []);
               react1 = (if reactCand \<noteq> [] then reactCand else []);
               next2 =
                 (if next1 = [] then
                    (let (foundVersion, found) = detectWithWindowNextPattern otherURLs fetchContent
                     in if found then foundVersion else next1)
                  else next1);
               (next3, react3) =
                 (if next2 = [] \<or> react1 = [] then
                    (let (nextCandFallback, reactCandFallback) =
                           detectWithSimpleContextPattern allURLs fetchContent next2 react1
                     in (if next2 = [] \<and> nextCandFallback \<noteq> [] then nextCandFallback else next2,
                         if react1 = [] \<and> reactCandFallback \<noteq> [] then reactCandFallback
                         else react1))
                  else (next2, react1));
               next4 =
                 (if next3 = [] then
                    (let (versionHint, foundHint) =
                           detectWithAppManifestProbe buildID assetBaseURL fetcher
                     in if foundHint then versionHint else next3)
                  else next3)
           in (if next4 = [] then ''Unknown'' else next4,
               if react3 = [] then ''Unknown'' else react3)))"

section \<open>The scanner: ScanTarget\<close>

record NextData =
  buildId :: string
  assetPrefix :: string
  props :: "(string \<times> jsvalue) list option"

record ScanResult =
  BaseURL :: string
  AssetBaseURL :: string
  IsNextJS :: bool
  BuildID :: string
  AssetPrefix :: string
  Routes :: routes
  AllAssets :: "string set"
  ManifestFound :: bool
  ManifestExecOK :: bool
  ExecutionError :: "go_error option"
  NextDataJSONRaw :: string
  DetectedNextVersion :: string
  DetectedReactVersion :: string

text \<open>The \<open>ScanResult\<close> literal with empty \<open>Routes\<close> and \<open>AllAssets\<close> and zero values elsewhere.\<close>

definition newScanResult :: "string \<Rightarrow> ScanResult" where
  "newScanResult base =
     \<lparr>BaseURL = base, AssetBaseURL = [], IsNextJS = False, BuildID = [], AssetPrefix = [],
      Routes = Mapping.empty, AllAssets = {}, ManifestFound = False, ManifestExecOK = False,
      ExecutionError = None, NextDataJSONRaw = [], DetectedNextVersion = [],
      DetectedReactVersion = []\<rparr>"

text \<open>The interface \<open>VersionDetector\<close>: its method \<open>Detect\<close>.\<close>

type_synonym versionDetector =
  "string \<Rightarrow> string set \<Rightarrow> URL option \<Rightarrow> fetcher option \<Rightarrow> string \<times> string"

record Scanner =
  fetcher :: fetcher
  versionDetector :: versionDetector
  customBaseURL :: string

text \<open>
  The libraries the scanner calls on the page and on the manifest script are taken as
  parameters: the HTML parser (goquery) as the two queries the scanner makes, the JSON
  decoder, and \<open>executeManifestJS\<close>, which runs the manifest in the script engine (goja).
  \<^item> \<open>script_srcs\<close>: the non-absent \<open>src\<close> attributes of the \<open>script[src]\<close> elements, in
    document order, or the error of the HTML parser;
  \<^item> \<open>next_data_text\<close>: the text of the last \<open>script#__NEXT_DATA__\<close> element, empty if
    there is none, or the error of the HTML parser;
  \<^item> \<open>json_Unmarshal\<close>: the decoded \<open>NextData\<close>, or the error of the decoder.
\<close>

record libraries =
  script_srcs :: "string \<Rightarrow> go_error + string list"
  next_data_text :: "string \<Rightarrow> go_error + string"
  json_Unmarshal :: "string \<Rightarrow> go_error + NextData"
  executeManifestJS :: "string \<Rightarrow> go_error + manifest"

text \<open>The text every \<open>errors.New\<close> for a missing configuration payload carries.\<close>

definition not_found_text :: string where
  "not_found_text = ''__NEXT_DATA__ script tag not found''"

text \<open>\<open>findInitialScriptURLs\<close>: the loop over the script elements, then the function.\<close>

fun initialScriptLoop :: "URL \<Rightarrow> string list \<Rightarrow> string set \<Rightarrow> string set" where
  "initialScriptLoop assetBaseURL [] jsURLs = jsURLs"
| "initialScriptLoop assetBaseURL (src # srcs) jsURLs =
     (if src = [] then initialScriptLoop assetBaseURL srcs jsURLs
      else if strings_Contains src ''/_next/static/'' then
        (case url_Parse src of
           None \<Rightarrow> initialScriptLoop assetBaseURL srcs jsURLs
         | Some srcURL \<Rightarrow>
             if strings_HasSuffix (Path srcURL) ''.js'' then
               initialScriptLoop assetBaseURL srcs
                 (insert (url_String (ResolveReference assetBaseURL srcURL)) jsURLs)
             else initialScriptLoop assetBaseURL srcs jsURLs)
      else initialScriptLoop assetBaseURL srcs jsURLs)"

definition findInitialScriptURLs :: "libraries \<Rightarrow> string \<Rightarrow> URL option \<Rightarrow> string set" where
  "findInitialScriptURLs lib htmlContent assetBaseURL =
     (case assetBaseURL of
        None \<Rightarrow> {}
      | Some base \<Rightarrow>
          (case script_srcs lib htmlContent of
             Inl err \<Rightarrow> {}
           | Inr srcs \<Rightarrow> initialScriptLoop base srcs {}))"

text \<open>
  \<open>findAndParseNextData\<close>. The two \<open>errors.New\<close> are at lines 362 and 372 of the source
  file.
\<close>

definition findAndParseNextData ::
  "libraries \<Rightarrow> string \<Rightarrow> NextData option \<times> string \<times> go_error option" where
  "findAndParseNextData lib htmlBody =
     (case next_data_text lib htmlBody of
        Inl err \<Rightarrow> (None, [], Some (Errorf_w ''failed to parse HTML: '' err))
      | Inr jsonData \<Rightarrow>
          if jsonData = [] then (None, [], Some (errors_New 362 not_found_text))
          else
            (case json_Unmarshal lib jsonData of
               Inl err \<Rightarrow>
                 (None, jsonData, Some (Errorf_w ''failed to unmarshal __NEXT_DATA__ JSON: '' err))
             | Inr nextData \<Rightarrow>
                 if buildId nextData = [] \<or> props nextData = None then
                   (Some nextData, jsonData,
                    Some (errors_New 372
                      ''__NEXT_DATA__ found, but missing expected fields (buildId, props)''))
                 else (Some nextData, jsonData, None)))"

text \<open>The URL that is fetched first.\<close>

definition targetURLOf :: "string \<Rightarrow> string" where
  "targetURLOf initialTargetURL =
     (if \<not> strings_HasPrefix initialTargetURL ''http://'' \<and>
         \<not> strings_HasPrefix initialTargetURL ''https://''
      then ''https://'' @ initialTargetURL else initialTargetURL)"

text \<open>
  The error of \<open>url.Parse\<close> as a value; of its text only the quoted URL is modelled.
\<close>

definition url_Error :: "string \<Rightarrow> go_error" where
  "url_Error rawURL = Foreign (''parse '' @ [dquote] @ rawURL @ [dquote])"

text \<open>What the outcome of \<open>findAndParseNextData\<close> sets in the result (the test at line 541).\<close>

definition applyNextData :: "NextData option \<Rightarrow> go_error option \<Rightarrow> ScanResult \<Rightarrow> ScanResult" where
  "applyNextData nextData nextDataErr result =
     (case nextDataErr of
        Some err \<Rightarrow>
          (case nextData of
             Some nd \<Rightarrow>
               if buildId nd \<noteq> [] then
                 result\<lparr>IsNextJS := True, BuildID := buildId nd, AssetPrefix := assetPrefix nd\<rparr>
               else if \<not> errors_Is err (errors_New 541 not_found_text) then
                 result\<lparr>IsNextJS := False\<rparr>
               else result
           | None \<Rightarrow>
               if \<not> errors_Is err (errors_New 541 not_found_text) then result\<lparr>IsNextJS := False\<rparr>
               else result)
      | None \<Rightarrow>
          (case nextData of
             Some nd \<Rightarrow>
               result\<lparr>IsNextJS := True, BuildID := buildId nd, AssetPrefix := assetPrefix nd\<rparr>
           | None \<Rightarrow> result))"

text \<open>Appending an asset prefix path to the path of the custom base URL.\<close>

definition appendPrefixPath :: "URL \<Rightarrow> string \<Rightarrow> URL" where
  "appendPrefixPath u prefixPath =
     (let p = (if \<not> strings_HasSuffix (Path u) ''/'' \<and> \<not> strings_HasPrefix prefixPath ''/''
               then Path u @ ''/'' else Path u)
      in u\<lparr>Path := p @ strings_TrimPrefix prefixPath ''/''\<rparr>)"

text \<open>The asset base URL, from the custom base URL, the page URL and the asset prefix.\<close>

definition assetBaseOf :: "string \<Rightarrow> URL \<Rightarrow> string \<Rightarrow> URL" where
  "assetBaseOf custom baseURL prefix =
     (if custom \<noteq> [] then
        (case url_Parse custom of
           None \<Rightarrow> baseURL
         | Some customURL \<Rightarrow>
             if prefix \<noteq> [] then
               (case url_Parse prefix of
                  Some prefixURL \<Rightarrow>
                    if IsAbs prefixURL then appendPrefixPath customURL (Path prefixURL)
                    else appendPrefixPath customURL prefix
                | None \<Rightarrow> appendPrefixPath customURL prefix)
             else customURL)
      else if prefix \<noteq> [] then
        (let relative =
               (let r = ResolveReference baseURL (empty_URL\<lparr>Path := prefix\<rparr>)
                in if Path r \<noteq> [] \<and> \<not> strings_HasSuffix (Path r) ''/''
                   then r\<lparr>Path := Path r @ ''/''\<rparr> else r)
         in case url_Parse prefix of
              Some prefixURL \<Rightarrow> if IsAbs prefixURL then prefixURL else relative
            | None \<Rightarrow> relative)
      else baseURL)"

text \<open>The URL of the build manifest (lines 619 to 637).\<close>

definition manifestURLOf :: "URL \<Rightarrow> string \<Rightarrow> string" where
  "manifestURLOf assetBaseParsedURL buildID =
     (if strings_Contains (Path assetBaseParsedURL) ''/_next/'' \<or>
         strings_HasSuffix (Path assetBaseParsedURL) ''/_next''
      then
        url_String (ResolveReference assetBaseParsedURL
          (empty_URL\<lparr>Path := path_Join [''static'', buildID, ''_buildManifest.js'']\<rparr>))
      else
        url_String (ResolveReference assetBaseParsedURL
          (empty_URL\<lparr>Path := path_Join [''_next/static'', buildID, ''_buildManifest.js'']\<rparr>)))"

text \<open>
  The fallback location tried after a failed manifest fetch, when a custom base URL and
  an asset prefix are there: \<open>Inr\<close> the URL to try, \<open>Inl ()\<close> when none is built and the
  original failure stands.
\<close>

definition fallbackURL :: "string \<Rightarrow> string \<Rightarrow> string \<Rightarrow> string" where
  "fallbackURL scheme0 host completePath =
     (if scheme0 = [] then ''https'' else scheme0) @ ''://'' @ host @ completePath"

definition fallbackFromDomain :: "URL \<Rightarrow> string \<Rightarrow> string \<Rightarrow> unit + string" where
  "fallbackFromDomain customRoot prefix fallbackPath =
     (if strings_Contains prefix ''.'' then
        (let assetPrefixParts = split_on CHR ''/'' (trim_char CHR ''/'' prefix)
         in if 0 < length assetPrefixParts \<and> strings_Contains (hd assetPrefixParts) ''.'' then
              (let remainingPath =
                     (if 1 < length assetPrefixParts
                      then ''/'' @ strings_Join (tl assetPrefixParts) ''/'' else [])
               in Inr (fallbackURL (Scheme customRoot) (hd assetPrefixParts)
                         (path_Join [remainingPath, fallbackPath])))
            else Inl ())
      else Inl ())"

definition fallbackManifestURLOf :: "URL \<Rightarrow> string \<Rightarrow> string \<Rightarrow> unit + string" where
  "fallbackManifestURLOf customRoot prefix buildID =
     (let fallbackPath = path_Join [''_next/static'', buildID, ''_buildManifest.js'']
      in case url_Parse prefix of
           Some prefixURL \<Rightarrow>
             if Host prefixURL \<noteq> [] then
               Inr (fallbackURL (Scheme customRoot) (Host prefixURL)
                      (path_Join [Path prefixURL, fallbackPath]))
             else fallbackFromDomain customRoot prefix fallbackPath
         | None \<Rightarrow> fallbackFromDomain customRoot prefix fallbackPath)"

text \<open>
  Fetching the manifest (lines 644 to 727): the reader and final URL that were obtained,
  if any, and the manifest processing error, if any.
\<close>

definition fetchManifest ::
  "Scanner \<Rightarrow> ScanResult \<Rightarrow> string \<Rightarrow> (reader \<times> string) option \<times> go_error option" where
  "fetchManifest s result manifestURL =
     (case fetcher s manifestURL of
        Inr got \<Rightarrow> (Some got, None)
      | Inl fetchErr \<Rightarrow>
          (let failed = Errorf_w (''failed to fetch build manifest at '' @ manifestURL @ '': '')
                          fetchErr
           in case url_Parse (customBaseURL s) of
                None \<Rightarrow> (None, Some failed)
              | Some customRoot \<Rightarrow>
                  if customBaseURL s \<noteq> [] \<and> AssetPrefix result \<noteq> [] then
                    (case fallbackManifestURLOf customRoot (AssetPrefix result) (BuildID result) of
                       Inl _ \<Rightarrow> (None, Some failed)
                     | Inr fallbackManifestURL \<Rightarrow>
                         if fallbackManifestURL \<noteq> [] then
                           (case fetcher s fallbackManifestURL of
                              Inr got \<Rightarrow> (Some got, None)
                            | Inl fallbackErr \<Rightarrow>
                                (None,
                                 Some (Errorf_w (''failed to fetch build manifest at '' @
                                                 manifestURL @ '' (and fallback): '') fetchErr)))
                         else (None, None))
                  else (None, Some failed)))"

text \<open>
  Processing the manifest that was fetched (lines 730 to 758): the result, the assets of
  the manifest and the manifest processing error.
\<close>

definition processManifest ::
  "libraries \<Rightarrow> ScanResult \<Rightarrow> reader \<times> string \<Rightarrow> ScanResult \<times> string set \<times> go_error option" where
  "processManifest lib result got =
     (let result1 = result\<lparr>ManifestFound := True\<rparr>
      in case fst got of
           Inl readErr \<Rightarrow>
             (result1, {},
              Some (Errorf_w (''failed to read build manifest from '' @ snd got @ '': '') readErr))
         | Inr manifestJS \<Rightarrow>
             (case executeManifestJS lib manifestJS of
                Inl execErr \<Rightarrow> (result1, {}, Some (Errorf_w ''goja execution failed: '' execErr))
              | Inr execData \<Rightarrow>
                  (let (routes, manifestAssets) =
                         extractRoutesAndAssets execData (AssetBaseURL result1)
                   in (result1\<lparr>ManifestExecOK := True, Routes := routes,
                                AllAssets := manifestAssets\<rparr>,
                       manifestAssets, None))))"

text \<open>
  The manifest stage (lines 615 to 766): with a build identifier the manifest is fetched
  and processed; without one the initial scripts become \<open>AllAssets\<close>.
\<close>

definition manifestStage ::
  "Scanner \<Rightarrow> libraries \<Rightarrow> URL \<Rightarrow> string set \<Rightarrow> ScanResult \<Rightarrow>
   ScanResult \<times> string set \<times> go_error option" where
  "manifestStage s lib assetBaseParsedURL initialScriptURLs result =
     (if BuildID result \<noteq> [] then
        (case fetchManifest s result (manifestURLOf assetBaseParsedURL (BuildID result)) of
           (Some got, fetchProblem) \<Rightarrow>
             (let (result1, manifestAssets, problem) = processManifest lib result got
              in (result1, manifestAssets, if problem \<noteq> None then problem else fetchProblem))
         | (None, fetchProblem) \<Rightarrow> (result, {}, fetchProblem))
      else (result\<lparr>AllAssets := AllAssets result \<union> initialScriptURLs\<rparr>, {}, None))"

text \<open>The assets handed to the version detector (lines 768 to 778).\<close>

definition combinedJSAssetsOf :: "string set \<Rightarrow> ScanResult \<Rightarrow> string set \<Rightarrow> string set" where
  "combinedJSAssetsOf initialScriptURLs result manifestAssets =
     (if ManifestFound result \<and> ManifestExecOK result
      then initialScriptURLs \<union> {url \<in> manifestAssets. strings_HasSuffix url ''.js''}
      else initialScriptURLs)"

text \<open>The terminal error (lines 785 to 799).\<close>

definition finalErrorOf ::
  "go_error option \<Rightarrow> go_error option \<Rightarrow> string set \<Rightarrow> go_error option" where
  "finalErrorOf manifestProcessingError nextDataErr initialScriptURLs =
     (case manifestProcessingError of
        Some err \<Rightarrow> Some (Errorf_w ''scanner: manifest processing failed: '' err)
      | None \<Rightarrow>
          (case nextDataErr of
             None \<Rightarrow> None
           | Some err \<Rightarrow>
               if \<not> errors_Is err (errors_New 789 not_found_text)
               then Some (Errorf_w ''scanner: __NEXT_DATA__ processing error: '' err)
               else if errors_Is err (errors_New 792 not_found_text) \<and> initialScriptURLs = {}
               then nextDataErr
               else None))"

text \<open>
  The last step (lines 801 to 814): a version that is neither unknown nor a hint sets
  \<open>IsNextJS\<close>, and may clear the terminal error.
\<close>

definition confidentVersion :: "string \<Rightarrow> bool" where
  "confidentVersion versionFound =
     (versionFound \<noteq> [] \<and> \<not> strings_HasPrefix versionFound ''Unknown'' \<and>
      \<not> strings_Contains versionFound ''Likely'')"

definition clearedError :: "go_error option \<Rightarrow> go_error option" where
  "clearedError finalError =
     (case finalError of
        None \<Rightarrow> None
      | Some err \<Rightarrow>
          if errors_Is err (errors_New 806 not_found_text) then None
          else if strings_Contains (Error err) ''Unsupported deployment'' then None
          else finalError)"

definition finishScan :: "ScanResult \<Rightarrow> go_error option \<Rightarrow> ScanResult \<times> go_error option" where
  "finishScan result finalError =
     (if \<not> IsNextJS result \<and> confidentVersion (DetectedNextVersion result) then
        (result\<lparr>IsNextJS := True, ExecutionError := clearedError finalError\<rparr>,
         clearedError finalError)
      else (result\<lparr>ExecutionError := finalError\<rparr>, finalError))"

text \<open>
  The scan of a page that was fetched and read (from line 531 on): \<open>baseURL\<close> is the
  parsed final URL and \<open>htmlContent\<close> the page.
\<close>

definition scanPage ::
  "Scanner \<Rightarrow> libraries \<Rightarrow> URL \<Rightarrow> string \<Rightarrow> ScanResult \<times> go_error option" where
  "scanPage s lib baseURL htmlContent =
     (let (nextData, raw, nextDataErr) = findAndParseNextData lib htmlContent;
          result1 = applyNextData nextData nextDataErr
                      ((newScanResult (url_String baseURL))\<lparr>NextDataJSONRaw := raw\<rparr>);
          assetBaseParsedURL = assetBaseOf (customBaseURL s) baseURL (AssetPrefix result1);
          result2 = result1\<lparr>AssetBaseURL := url_String assetBaseParsedURL\<rparr>;
          initialScriptURLs = findInitialScriptURLs lib htmlContent (Some assetBaseParsedURL);
          result3 =
            (if errors_Is_opt nextDataErr (errors_New 610 not_found_text) \<and>
                initialScriptURLs \<noteq> {}
             then result2\<lparr>IsNextJS := True\<rparr> else result2);
          (result4, manifestAssets, manifestProcessingError) =
            manifestStage s lib assetBaseParsedURL initialScriptURLs result3;
          combinedJSAssets = combinedJSAssetsOf initialScriptURLs result4 manifestAssets;
          (nextV, reactV) =
            versionDetector s (BuildID result4) combinedJSAssets (Some assetBaseParsedURL)
              (Some (fetcher s));
          result5 = result4\<lparr>DetectedNextVersion := nextV, DetectedReactVersion := reactV\<rparr>
      in finishScan result5
           (finalErrorOf manifestProcessingError nextDataErr initialScriptURLs))"

text \<open>\<open>(*Scanner).ScanTarget\<close>: the result and the error returned with it.\<close>

definition ScanTarget ::
  "Scanner \<Rightarrow> libraries \<Rightarrow> string \<Rightarrow> ScanResult \<times> go_error option" where
  "ScanTarget s lib initialTargetURL =
     (let targetURL = targetURLOf initialTargetURL
      in case fetcher s targetURL of
           Inl fetchErr \<Rightarrow>
             (let err = Errorf_w (''scanner: initial fetch failed for '' @ targetURL @ '': '')
                          fetchErr;
                  result = (newScanResult targetURL)
                    \<lparr>AssetBaseURL :=
                       (case url_Parse targetURL of None \<Rightarrow> [] | Some u \<Rightarrow> url_String u),
                     ExecutionError := Some err\<rparr>
              in (result, Some err))
         | Inr (htmlBodyReader, finalURL) \<Rightarrow>
             (case url_Parse finalURL of
                None \<Rightarrow>
                  (let err = Errorf_w (''scanner: invalid final URL '' @ [squote] @ finalURL @
                                       [squote] @ '' received from fetcher: '')
                               (url_Error finalURL)
                   in ((newScanResult initialTargetURL)\<lparr>ExecutionError := Some err\<rparr>, Some err))
              | Some baseURL \<Rightarrow>
                  (case htmlBodyReader of
                     Inl readErr \<Rightarrow>
                       (let err = Errorf_w (''scanner: failed to read response body from '' @
                                            finalURL @ '': '') readErr
                        in ((newScanResult (url_String baseURL))\<lparr>ExecutionError := Some err\<rparr>,
                            Some err))
                   | Inr htmlContent \<Rightarrow> scanPage s lib baseURL htmlContent)))"

section \<open>Example scans\<close>

text \<open>
  A fetcher that serves one page, reporting \<open>finalURL\<close> as the final URL, and answers
  every other request with the bad-status error for 404.
\<close>

definition page_fetcher :: "string \<Rightarrow> string \<Rightarrow> string \<Rightarrow> fetcher" where
  "page_fetcher pageURL finalURL htmlContent =
     (\<lambda>u. if u = pageURL then Inr (Inr htmlContent, finalURL)
          else Inl (bad_status_error u u 404))"

definition example_scanner :: "string \<Rightarrow> string \<Rightarrow> string \<Rightarrow> Scanner" where
  "example_scanner pageURL finalURL htmlContent =
     \<lparr>fetcher = page_fetcher pageURL finalURL htmlContent, versionDetector = Detect,
      customBaseURL = []\<rparr>"

text \<open>A page with one framework script and no configuration payload.\<close>

definition page_without_payload :: string where
  \<open>page_without_payload =
     ''<html><body><script src="/_next/static/chunks/main.js"></script></body></html>''\<close>

definition libs_without_payload :: libraries where
  "libs_without_payload =
     \<lparr>script_srcs = (\<lambda>html. Inr [''/_next/static/chunks/main.js'']),
      next_data_text = (\<lambda>html. Inr []),
      json_Unmarshal = (\<lambda>text. Inl (Foreign ''unexpected end of JSON input'')),
      executeManifestJS = (\<lambda>js. Inl (Foreign ''SyntaxError''))\<rparr>"



text \<open>
  A script of 218 bytes with three quoted versions, more than a context window apart:
  the first follows \<open>reconcilerVersion\<close>, the second stands alone, the third follows
  the name \<open>react-dom\<close>.
\<close>

definition script_with_versions :: string where
  \<open>script_with_versions =
     ''var a={rendererPackageName:"x",reconcilerVersion:"18.3.1"};'' @
     ''/* ---------------------------------------- */'' @
     ''var b={version:"14.2.1"};'' @
     ''/* ---------------------------------------- */'' @
     ''var c={name:"react-dom",version:"18.2.0"};''\<close>

section \<open>Auxiliary notions of the proofs\<close>

text \<open>
  An expression that can only match a text holding the byte \<open>c\<close>: some literal that
  every match goes through contains it.
\<close>

fun needs_byte :: "char \<Rightarrow> regex \<Rightarrow> bool" where
  "needs_byte c (Lit l) = (c \<in> set l)"
| "needs_byte c (Seq a b) = (needs_byte c a \<or> needs_byte c b)"
| "needs_byte c (Alt a b) = (needs_byte c a \<and> needs_byte c b)"
| "needs_byte c (Group a) = needs_byte c a"
| "needs_byte c _ = False"

text \<open>
  The matches the context-scored scan may record with the captured version \<open>v\<close>: for
  the Next.js version a match whose window holds neither a React name nor
  \<open>reconcilerVersion\<close>, for the React version a match whose window holds a React name.
\<close>

definition next_candidate :: "string \<Rightarrow> string list \<Rightarrow> string \<Rightarrow> bool" where
  "next_candidate contentBytes match v =
     (2 \<le> length match \<and> v = match ! 1 \<and>
      \<not> isReact (matchContext contentBytes (match ! 0)) \<and>
      \<not> isReconciler (matchContext contentBytes (match ! 0)))"

definition react_candidate :: "string \<Rightarrow> string list \<Rightarrow> string \<Rightarrow> bool" where
  "react_candidate contentBytes match v =
     (2 \<le> length match \<and> v = match ! 1 \<and>
      isReact (matchContext contentBytes (match ! 0)))"




text \<open>
  The relation kept by the outer loop of \<open>extractRoutesAndAssets\<close>: the set of all
  assets is the union of the asset lists stored for the routes.
\<close>

definition assets_inv :: "routes \<times> string set \<Rightarrow> bool" where
  "assets_inv st = (snd st = \<Union> (set ` ran (Mapping.lookup (fst st))))"

section \<open>Properties of the route and asset resolver\<close>

lemma routeAssetsLoop_keeps:
  "set ra \<subseteq> set (fst (routeAssetsLoop b l (ra, A)))"
proof (induction b l "(ra, A)" arbitrary: ra A rule: routeAssetsLoop.induct)
  case (2 b assetPath rest routeAssets allAssets)
  then show ?case by (fastforce simp: Let_def)
qed auto

lemma routeAssetsLoop_assets:
  "set ra \<subseteq> A \<Longrightarrow>
   snd (routeAssetsLoop b l (ra, A)) = A \<union> set (fst (routeAssetsLoop b l (ra, A)))"
proof (induction b l "(ra, A)" arbitrary: ra A rule: routeAssetsLoop.induct)
  case (2 b assetPath rest routeAssets allAssets)
  show ?case
  proof (cases "is_script_or_style assetPath")
    case True
    let ?u = "fullAssetURL b assetPath"
    let ?r = "routeAssetsLoop b rest (routeAssets @ [?u], insert ?u allAssets)"
    have "snd ?r = insert ?u allAssets \<union> set (fst ?r)"
      using 2 True by auto
    moreover have "?u \<in> set (fst ?r)"
      using routeAssetsLoop_keeps [of "routeAssets @ [?u]" b rest "insert ?u allAssets"] by auto
    ultimately show ?thesis using True by (auto simp: Let_def)
  next
    case False
    then show ?thesis using 2 by simp
  qed
qed auto

lemma ran_lookup_update:
  "k \<notin> Mapping.keys r \<Longrightarrow>
   ran (Mapping.lookup (Mapping.update k v r)) = insert v (ran (Mapping.lookup r))"
  by transfer (simp add: domIff)

lemma routeStep_keys:
  "Mapping.keys (fst (routeStep b m k st)) \<subseteq> insert k (Mapping.keys (fst st))"
  by (auto simp: routeStep_def Let_def split: option.splits prod.splits)

lemma routeStep_inv:
  assumes "assets_inv st" and "k \<notin> Mapping.keys (fst st)"
  shows "assets_inv (routeStep b m k st)"
proof (cases "strings_HasPrefix k ''__'' \<or> k = ''sortedPages''")
  case True
  then show ?thesis using assms by (simp add: routeStep_def)
next
  case False
  show ?thesis
  proof (cases "assetListOf (Mapping.lookup m k)")
    case None
    then show ?thesis using assms False by (simp add: routeStep_def)
  next
    case (Some l)
    obtain ra A where loop: "routeAssetsLoop b l ([], snd st) = (ra, A)"
      by (cases "routeAssetsLoop b l ([], snd st)")
    have A: "A = snd st \<union> set ra"
      using routeAssetsLoop_assets [of "[]" "snd st" b l] loop by simp
    have "routeStep b m k st = (Mapping.update k (sort ra) (fst st), A)"
      using False Some loop by (simp add: routeStep_def)
    then show ?thesis
      using assms A by (simp add: assets_inv_def ran_lookup_update Un_commute)
  qed
qed

lemma foldl_routeStep_inv:
  "distinct ks \<Longrightarrow> Mapping.keys (fst st) \<inter> set ks = {} \<Longrightarrow> assets_inv st \<Longrightarrow>
   assets_inv (foldl (\<lambda>st k. routeStep b m k st) st ks)"
proof (induction ks arbitrary: st)
  case Nil
  then show ?case by simp
next
  case (Cons k ks)
  have "Mapping.keys (fst (routeStep b m k st)) \<inter> set ks = {}"
    using routeStep_keys [of b m k st] Cons.prems by auto
  moreover have "assets_inv (routeStep b m k st)"
    using Cons.prems by (intro routeStep_inv) auto
  ultimately show ?case using Cons by simp
qed

text \<open>
  C9: for every manifest and every asset base, the set of all assets returned by
  \<open>extractRoutesAndAssets\<close> is exactly the union of the returned per-route asset
  lists: every URL in some route's list is in the set, and every member of the set
  is in some route's list.
\<close>

theorem allAssets_is_union_of_routes:
  "snd (extractRoutesAndAssets manifestData assetBaseURL) =
   \<Union> (set ` ran (Mapping.lookup (fst (extractRoutesAndAssets manifestData assetBaseURL))))"
proof -
  have "Mapping.lookup (Mapping.empty :: routes) = Map.empty"
    by (rule ext) simp
  then have "assets_inv (Mapping.empty, {})"
    by (simp add: assets_inv_def)
  then have "assets_inv (extractRoutesAndAssets manifestData assetBaseURL)"
    unfolding extractRoutesAndAssets_def Let_def
    by (intro foldl_routeStep_inv) (simp_all add: Mapping.distinct_ordered_keys)
  then show ?thesis by (simp add: assets_inv_def)
qed

text \<open>
  C1: the manifest \<open>{"/a": ["/static/chunks/a.js"], "/b": "/static/chunks/b.css"}\<close>
  with the asset base \<open>https://x.test/_next/\<close>. The resolver returns the two routes
  \<open>/a\<close> and \<open>/b\<close>, each with one absolute URL, and the single string of \<open>/b\<close> is
  taken as a one-element list; but the URLs are under \<open>https://x.test/_next/_next/static/\<close>,
  not under \<open>https://x.test/_next/static/\<close>: the \<open>_next\<close> element is joined after an
  asset base that already ends with it.
\<close>

theorem extractRoutesAndAssets_manifest_example:
  "extractRoutesAndAssets
     (Mapping.of_alist
        [(''/a'', JArray [JString ''/static/chunks/a.js'']),
         (''/b'', JString ''/static/chunks/b.css'')])
     ''https://x.test/_next/'' =
   (Mapping.of_alist
      [(''/a'', [''https://x.test/_next/_next/static/chunks/a.js'']),
       (''/b'', [''https://x.test/_next/_next/static/chunks/b.css''])],
    {''https://x.test/_next/_next/static/chunks/a.js'',
     ''https://x.test/_next/_next/static/chunks/b.css''})
   \<and> \<not> strings_HasPrefix ''https://x.test/_next/_next/static/chunks/a.js''
         ''https://x.test/_next/static/''
   \<and> \<not> strings_HasPrefix ''https://x.test/_next/_next/static/chunks/b.css''
         ''https://x.test/_next/static/''"
  by code_simp

section \<open>Properties of the version detector\<close>














text \<open>
  What the context-scored scan records comes from a candidate match: through the loop
  over the matches of a file, and through the loop over the files.
\<close>

lemma classifyMatch_origin:
  assumes "2 \<le> length match"
  shows "(fst (classifyMatch contentBytes match st) = fst st \<or>
          next_candidate contentBytes match (fst (classifyMatch contentBytes match st))) \<and>
         (snd (classifyMatch contentBytes match st) = snd st \<or>
          react_candidate contentBytes match (snd (classifyMatch contentBytes match st)))"
  using assms
  by (simp add: classifyMatch_def Let_def next_candidate_def react_candidate_def)

lemma scanMatches_origin:
  "(fst (scanMatches contentBytes matches st) = fst st \<or>
    (\<exists>match \<in> set matches.
       next_candidate contentBytes match (fst (scanMatches contentBytes matches st)))) \<and>
   (snd (scanMatches contentBytes matches st) = snd st \<or>
    (\<exists>match \<in> set matches.
       react_candidate contentBytes match (snd (scanMatches contentBytes matches st))))"
proof (induction matches arbitrary: st)
  case Nil
  then show ?case by simp
next
  case (Cons match matches)
  show ?case
  proof (cases "length match < 2")
    case True
    then show ?thesis using Cons.IH [of st] by auto
  next
    case long: False
    show ?thesis
    proof (cases "fst st \<noteq> [] \<and> snd st \<noteq> []")
      case True
      then show ?thesis using long by simp
    next
      case unset: False
      let ?st' = "classifyMatch contentBytes match st"
      have c: "(fst ?st' = fst st \<or> next_candidate contentBytes match (fst ?st')) \<and>
               (snd ?st' = snd st \<or> react_candidate contentBytes match (snd ?st'))"
        using classifyMatch_origin [of match contentBytes st] long by simp
      show ?thesis
      proof (cases "fst ?st' \<noteq> [] \<and> snd ?st' \<noteq> []")
        case True
        then have "scanMatches contentBytes (match # matches) st = ?st'"
          using long unset by (auto simp: Let_def)
        then show ?thesis using c by auto
      next
        case False
        then have "scanMatches contentBytes (match # matches) st =
                   scanMatches contentBytes matches ?st'"
          using long unset by (auto simp: Let_def)
        then show ?thesis using c Cons.IH [of ?st'] by auto
      qed
    qed
  qed
qed

lemma scanURLs_origin:
  "(fst (scanURLs urls fetchContent st) = fst st \<or>
    (\<exists>assetURL \<in> set urls. \<exists>contentBytes. fetchContent assetURL = Some contentBytes \<and>
       (\<exists>match \<in> set (FindAllSubmatch simpleVersionRegex contentBytes).
          next_candidate contentBytes match (fst (scanURLs urls fetchContent st))))) \<and>
   (snd (scanURLs urls fetchContent st) = snd st \<or>
    (\<exists>assetURL \<in> set urls. \<exists>contentBytes. fetchContent assetURL = Some contentBytes \<and>
       (\<exists>match \<in> set (FindAllSubmatch simpleVersionRegex contentBytes).
          react_candidate contentBytes match (snd (scanURLs urls fetchContent st)))))"
proof (induction urls arbitrary: st)
  case Nil
  then show ?case by simp
next
  case (Cons assetURL urls)
  show ?case
  proof (cases "fst st \<noteq> [] \<and> snd st \<noteq> []")
    case True
    then show ?thesis by simp
  next
    case unset: False
    show ?thesis
    proof (cases "fetchContent assetURL")
      case None
      then have "scanURLs (assetURL # urls) fetchContent st = scanURLs urls fetchContent st"
        using unset by auto
      then show ?thesis using Cons.IH [of st] by auto
    next
      case (Some contentBytes)
      let ?st' = "scanMatches contentBytes (FindAllSubmatch simpleVersionRegex contentBytes) st"
      have e: "scanURLs (assetURL # urls) fetchContent st = scanURLs urls fetchContent ?st'"
        using unset Some by auto
      have m: "(fst ?st' = fst st \<or>
                (\<exists>match \<in> set (FindAllSubmatch simpleVersionRegex contentBytes).
                   next_candidate contentBytes match (fst ?st'))) \<and>
               (snd ?st' = snd st \<or>
                (\<exists>match \<in> set (FindAllSubmatch simpleVersionRegex contentBytes).
                   react_candidate contentBytes match (snd ?st')))"
        by (rule scanMatches_origin)
      show ?thesis
        unfolding e using m Cons.IH [of ?st'] Some
        by (auto; metis)
    qed
  qed
qed

text \<open>
  C2, as the code has it: the context-scored scan never records as the Next.js version
  a match whose context window contains \<open>reconcilerVersion\<close>. The Next.js version it
  returns is the one passed in, or the captured version of a match, in a file fetched
  from one of the URLs, whose window contains neither \<open>reconcilerVersion\<close> nor a React
  name. The React version it returns is the one passed in, or the captured version of
  a match whose window contains a React name: the reconciler test guards the Next.js
  branch only.
\<close>

theorem reconciler_window_never_next_version:
  "detectWithSimpleContextPattern urls fetchContent currentNextVersion currentReactVersion =
     (foundNext, foundReact) \<Longrightarrow>
   (foundNext = currentNextVersion \<or>
    (\<exists>assetURL \<in> set urls. \<exists>contentBytes. fetchContent assetURL = Some contentBytes \<and>
       (\<exists>match \<in> set (FindAllSubmatch simpleVersionRegex contentBytes).
          2 \<le> length match \<and> foundNext = match ! 1 \<and>
          \<not> isReconciler (matchContext contentBytes (match ! 0)) \<and>
          \<not> isReact (matchContext contentBytes (match ! 0))))) \<and>
   (foundReact = currentReactVersion \<or>
    (\<exists>assetURL \<in> set urls. \<exists>contentBytes. fetchContent assetURL = Some contentBytes \<and>
       (\<exists>match \<in> set (FindAllSubmatch simpleVersionRegex contentBytes).
          2 \<le> length match \<and> foundReact = match ! 1 \<and>
          isReact (matchContext contentBytes (match ! 0)))))"
  using scanURLs_origin [of urls fetchContent "(currentNextVersion, currentReactVersion)"]
  unfolding detectWithSimpleContextPattern_def next_candidate_def react_candidate_def
  by (simp; blast)



text \<open>
  C2 as stated fails: in the content \<^verbatim>\<open>"react-dom",reconcilerVersion:"18.2.0"\<close> the
  window of the only version match contains \<open>reconcilerVersion\<close> (and \<open>react\<close>), and
  the scan records \<open>18.2.0\<close> as the React version.
\<close>

theorem reconciler_version_recorded_as_react_counterexample:
  \<open>isReconciler (matchContext ''"react-dom",reconcilerVersion:"18.2.0"'' ''"18.2.0"'') \<and>
   FindAllSubmatch simpleVersionRegex ''"react-dom",reconcilerVersion:"18.2.0"'' =
     [[''"18.2.0"'', ''18.2.0'']] \<and>
   detectWithSimpleContextPattern [''https://x.test/_next/static/chunks/main.js'']
     (\<lambda>u. Some ''"react-dom",reconcilerVersion:"18.2.0"'') [] [] = ([], ''18.2.0'')\<close>
  by code_simp

text \<open>
  The scan of a script longer than a window: the version after \<open>reconcilerVersion\<close> is
  the first match and is passed over (its window of 68 bytes holds the token and no
  React name), the Next.js version comes from the second match and the React version
  from the third.
\<close>

theorem reconciler_window_never_next_version_witness:
  \<open>detectWithSimpleContextPattern [''https://x.test/_next/static/chunks/main.js'']
     (\<lambda>u. Some script_with_versions) [] [] = (''14.2.1'', ''18.2.0'') \<and>
   (\<exists>match \<in> set (FindAllSubmatch simpleVersionRegex script_with_versions).
      2 \<le> length match \<and> ''14.2.1'' = match ! 1 \<and>
      \<not> isReconciler (matchContext script_with_versions (match ! 0)) \<and>
      \<not> isReact (matchContext script_with_versions (match ! 0))) \<and>
   (\<exists>match \<in> set (FindAllSubmatch simpleVersionRegex script_with_versions).
      2 \<le> length match \<and> ''18.2.0'' = match ! 1 \<and>
      isReact (matchContext script_with_versions (match ! 0))) \<and>
   FindAllSubmatch simpleVersionRegex script_with_versions =
     [[''"18.3.1"'', ''18.3.1''], [''"14.2.1"'', ''14.2.1''], [''"18.2.0"'', ''18.2.0'']] \<and>
   isReconciler (matchContext script_with_versions ''"18.3.1"'') \<and>
   \<not> isReact (matchContext script_with_versions ''"18.3.1"'') \<and>
   length (matchContext script_with_versions ''"18.3.1"'') = 68 \<and>
   length script_with_versions = 218\<close>
proof -
  have scan: \<open>detectWithSimpleContextPattern [''https://x.test/_next/static/chunks/main.js'']
     (\<lambda>u. Some script_with_versions) [] [] = (''14.2.1'', ''18.2.0'')\<close>
    by code_simp
  have found: \<open>(\<exists>match \<in> set (FindAllSubmatch simpleVersionRegex script_with_versions).
      2 \<le> length match \<and> ''14.2.1'' = match ! 1 \<and>
      \<not> isReconciler (matchContext script_with_versions (match ! 0)) \<and>
      \<not> isReact (matchContext script_with_versions (match ! 0))) \<and>
   (\<exists>match \<in> set (FindAllSubmatch simpleVersionRegex script_with_versions).
      2 \<le> length match \<and> ''18.2.0'' = match ! 1 \<and>
      isReact (matchContext script_with_versions (match ! 0)))\<close>
    using reconciler_window_never_next_version [OF scan] by simp
  have rest: \<open>FindAllSubmatch simpleVersionRegex script_with_versions =
     [[''"18.3.1"'', ''18.3.1''], [''"14.2.1"'', ''14.2.1''], [''"18.2.0"'', ''18.2.0'']] \<and>
   isReconciler (matchContext script_with_versions ''"18.3.1"'') \<and>
   \<not> isReact (matchContext script_with_versions ''"18.3.1"'') \<and>
   length (matchContext script_with_versions ''"18.3.1"'') = 68 \<and>
   length script_with_versions = 218\<close>
    by code_simp
  show ?thesis
    using scan found rest by blast
qed

text \<open>
  The expressions with doubled backslashes match only a text that holds a backslash:
  on a file without one, neither the direct pattern nor the assignment pattern matches.
\<close>

lemma drop_is_suffix: "\<exists>p. s = p @ drop k s"
  by (metis append_take_drop_id)

lemma rmatch_suffix:
  "(r, gs) \<in> set (rmatch re s) \<Longrightarrow> \<exists>p. s = p @ r"
proof (induction re arbitrary: s r gs)
  case (Lit l)
  then show ?case
    by (auto simp: strings_HasPrefix_def split: if_splits) (metis append_take_drop_id)
next
  case (One cl)
  then show ?case by (auto split: list.splits if_splits)
next
  case (Star cl)
  then show ?case by (auto simp: drop_is_suffix)
next
  case (LazyStar cl)
  then show ?case by (auto simp: drop_is_suffix)
next
  case (Plus cl)
  then show ?case by (auto simp: drop_is_suffix)
next
  case (Seq a b)
  then obtain r1 g1 g2 where "(r1, g1) \<in> set (rmatch a s)" and "(r, g2) \<in> set (rmatch b r1)"
    by auto
  then show ?case
    using Seq.IH by (metis append.assoc)
next
  case (Alt a b)
  then show ?case by auto
next
  case (Opt a)
  then show ?case by auto
next
  case (Group a)
  then show ?case by auto
qed

lemma rmatch_needs_byte:
  "needs_byte c re \<Longrightarrow> c \<notin> set s \<Longrightarrow> rmatch re s = []"
proof (induction re arbitrary: s)
  case (Lit l)
  then show ?case
    by (auto simp: strings_HasPrefix_def) (metis in_set_takeD)
next
  case (Seq a b)
  show ?case
  proof (cases "needs_byte c a")
    case True
    then show ?thesis using Seq by simp
  next
    case False
    then have b: "needs_byte c b" using Seq.prems by simp
    have "rmatch b r = []" if m: "(r, gs) \<in> set (rmatch a s)" for r gs
    proof -
      obtain p where "s = p @ r" using rmatch_suffix [OF m] by blast
      then have "c \<notin> set r" using Seq.prems(2) by auto
      then show ?thesis using Seq.IH(2) b by blast
    qed
    then show ?thesis by (auto simp: concat_eq_Nil_conv)
  qed
qed auto

lemma find_first_needs_byte:
  "needs_byte c re \<Longrightarrow> c \<notin> set s \<Longrightarrow> find_first re s = None"
  by (induction s) (auto simp: rmatch_needs_byte)

lemma escaped_patterns_need_backslash:
  "needs_byte bslash windowNextDirectVersionRegex" "needs_byte bslash assignmentVersionRegex"
  by code_simp+

lemma escaped_patterns_never_match:
  assumes "bslash \<notin> set contentBytes"
  shows "FindSubmatch windowNextDirectVersionRegex contentBytes = []"
    and "FindSubmatch assignmentVersionRegex contentBytes = []"
  using assms escaped_patterns_need_backslash
  by (simp_all add: FindSubmatch_def find_first_needs_byte)

text \<open>
  C5: the priority URL \<open>main.js\<close> holds the direct assignment
  \<^verbatim>\<open>window.next={version:"14.2.1"}\<close> and the other URL \<open>a.js\<close> holds the
  conflicting literal \<^verbatim>\<open>"9.9.9"\<close>. The direct expression does not match the
  assignment (its version part asks for backslashes and letters d, and the file holds
  no backslash), so no window.next strategy answers, and the scan of all URLs in sorted order takes \<open>9.9.9\<close> from
  \<open>a.js\<close>: \<open>Detect\<close> returns the version of the other URL.
\<close>

theorem Detect_priority_direct_assignment_example:
  \<open>FindSubmatch windowNextDirectVersionRegex ''window.next={version:"14.2.1"}'' = [] \<and>
   Detect ''b1''
     {''https://x.test/_next/static/chunks/main.js'', ''https://x.test/_next/static/chunks/a.js''}
     (Some (empty_URL\<lparr>Scheme := ''https'', Host := ''x.test'', Path := ''/''\<rparr>))
     (Some (\<lambda>u. if u = ''https://x.test/_next/static/chunks/main.js''
                 then Inr (Inr ''window.next={version:"14.2.1"}'', u)
                 else if u = ''https://x.test/_next/static/chunks/a.js''
                 then Inr (Inr ''v="9.9.9"'', u)
                 else Inl (Foreign ''no such asset'')))
   = (''9.9.9'', ''Unknown'')\<close>
  by code_simp

text \<open>
  C6: the file \<^verbatim>\<open>x("9.9.9");window.next={version:H};let H="14.2.1"\<close> matches the
  assignment through a variable, and its first local declaration binds \<open>14.2.1\<close>.
  The assignment expression does not match that declaration (same doubled backslashes),
  so the fallback takes the first quoted version of the file: \<open>Detect\<close> returns \<open>9.9.9\<close>.
  On the content of the claim's example, where the declaration holds the first quoted
  version of the file, the fallback gives \<open>14.2.1-canary.3\<close>.
\<close>

theorem Detect_indirect_assignment_example:
  \<open>FindSubmatch windowNextVarVersionRegex
     ''x("9.9.9");window.next={version:H};let H="14.2.1"'' \<noteq> [] \<and>
   FindSubmatch assignmentVersionRegex
     ''x("9.9.9");window.next={version:H};let H="14.2.1"'' = [] \<and>
   Detect ''b1'' {''https://x.test/_next/static/chunks/main.js''}
     (Some (empty_URL\<lparr>Scheme := ''https'', Host := ''x.test'', Path := ''/''\<rparr>))
     (Some (\<lambda>u. if u = ''https://x.test/_next/static/chunks/main.js''
                 then Inr (Inr ''x("9.9.9");window.next={version:H};let H="14.2.1"'', u)
                 else Inl (Foreign ''no such asset'')))
   = (''9.9.9'', ''Unknown'') \<and>
   Detect ''b1'' {''https://x.test/_next/static/chunks/main.js''}
     (Some (empty_URL\<lparr>Scheme := ''https'', Host := ''x.test'', Path := ''/''\<rparr>))
     (Some (\<lambda>u. if u = ''https://x.test/_next/static/chunks/main.js''
                 then Inr (Inr
                   ''window.next = {version: IDENT}; let IDENT = "14.2.1-canary.3"'', u)
                 else Inl (Foreign ''no such asset'')))
   = (''14.2.1-canary.3'', ''Unknown'')\<close>
  by code_simp

section \<open>Properties of ScanTarget\<close>

lemma applyNextData_fields [simp]:
  "BaseURL (applyNextData nd e r) = BaseURL r"
  "AllAssets (applyNextData nd e r) = AllAssets r"
  "ManifestFound (applyNextData nd e r) = ManifestFound r"
  "ManifestExecOK (applyNextData nd e r) = ManifestExecOK r"
  by (simp_all add: applyNextData_def split: option.splits)

lemma processManifest_fields [simp]:
  "BaseURL (fst (processManifest lib r got)) = BaseURL r"
  "BuildID (fst (processManifest lib r got)) = BuildID r"
  "AssetPrefix (fst (processManifest lib r got)) = AssetPrefix r"
  "IsNextJS (fst (processManifest lib r got)) = IsNextJS r"
  "ManifestFound (fst (processManifest lib r got))"
  by (simp_all add: processManifest_def Let_def split: sum.splits prod.splits)

lemma manifestStage_fields [simp]:
  "BaseURL (fst (manifestStage s lib a i r)) = BaseURL r"
  "BuildID (fst (manifestStage s lib a i r)) = BuildID r"
  "AssetPrefix (fst (manifestStage s lib a i r)) = AssetPrefix r"
  "IsNextJS (fst (manifestStage s lib a i r)) = IsNextJS r"
  by (simp_all add: manifestStage_def Let_def split_beta split: option.splits prod.splits)

lemma finishScan_fields [simp]:
  "BaseURL (fst (finishScan r e)) = BaseURL r"
  "BuildID (fst (finishScan r e)) = BuildID r"
  "AssetPrefix (fst (finishScan r e)) = AssetPrefix r"
  "AllAssets (fst (finishScan r e)) = AllAssets r"
  "ManifestFound (fst (finishScan r e)) = ManifestFound r"
  "ManifestExecOK (fst (finishScan r e)) = ManifestExecOK r"
  "DetectedNextVersion (fst (finishScan r e)) = DetectedNextVersion r"
  "DetectedReactVersion (fst (finishScan r e)) = DetectedReactVersion r"
  "IsNextJS (fst (finishScan r e)) = (IsNextJS r \<or> confidentVersion (DetectedNextVersion r))"
  "ExecutionError (fst (finishScan r e)) = snd (finishScan r e)"
  by (auto simp: finishScan_def)


lemma scanPage_BaseURL [simp]:
  "BaseURL (fst (scanPage s lib baseURL html)) = url_String baseURL"
  by (simp add: scanPage_def Let_def split_beta newScanResult_def)

lemma ScanTarget_page:
  "fetcher s (targetURLOf t) = Inr (Inr html, final) \<Longrightarrow> url_Parse final = Some baseURL \<Longrightarrow>
   ScanTarget s lib t = scanPage s lib baseURL html"
  by (simp add: ScanTarget_def)







lemma not_found_wrapper_text:
  "\<not> strings_Contains
       (Error (Errorf_w ''scanner: __NEXT_DATA__ processing error: ''
                 (errors_New 362 not_found_text)))
       ''Unsupported deployment''"
  by code_simp

text \<open>
  C3: the page is fetched, its final URL parses, and it holds no configuration payload.
  Whatever scripts the HTML holds, the scan does not set \<open>IsNextJS\<close> from them (it is
  true only when the detector returns a confident version), and the terminal error is
  never null: it is the processing error wrapping "script tag not found". The tests of
  the source compare the error with a value newly made by \<open>errors.New\<close>, which no
  earlier error is equal to, so the branches for an absent payload are never taken.
\<close>

theorem ScanTarget_absent_payload:
  assumes "fetcher s (targetURLOf t) = Inr (Inr html, final)"
    and "url_Parse final = Some baseURL"
    and "next_data_text lib html = Inr []"
  shows "IsNextJS (fst (ScanTarget s lib t)) =
           confidentVersion (DetectedNextVersion (fst (ScanTarget s lib t))) \<and>
         ExecutionError (fst (ScanTarget s lib t)) =
           Some (Errorf_w ''scanner: __NEXT_DATA__ processing error: ''
                   (errors_New 362 not_found_text)) \<and>
         snd (ScanTarget s lib t) = ExecutionError (fst (ScanTarget s lib t))"
proof -
  let ?e = "errors_New 362 not_found_text"
  let ?w = "Errorf_w ''scanner: __NEXT_DATA__ processing error: '' ?e"
  let ?result1 = "newScanResult (url_String baseURL)"
  let ?base = "assetBaseOf (customBaseURL s) baseURL []"
  let ?initial = "findInitialScriptURLs lib html (Some ?base)"
  let ?result4 = "?result1\<lparr>AssetBaseURL := url_String ?base, AllAssets := ?initial\<rparr>"
  let ?detected = "versionDetector s [] ?initial (Some ?base) (Some (fetcher s))"
  have nd: "findAndParseNextData lib html = (None, [], Some ?e)"
    using assms(3) by (simp add: findAndParseNextData_def)
  have page: "ScanTarget s lib t = scanPage s lib baseURL html"
    using assms(1,2) by (rule ScanTarget_page)
  have fresh: "\<not> errors_Is ?e (errors_New n not_found_text)" if "n \<noteq> 362" for n
    using that by (simp add: errors_New_def)
  have applied: "applyNextData None (Some ?e) (?result1\<lparr>NextDataJSONRaw := []\<rparr>) = ?result1"
    using fresh [of 541] by (simp add: applyNextData_def newScanResult_def)
  have r1: "AssetPrefix ?result1 = []" "BuildID ?result1 = []" "\<not> IsNextJS ?result1"
    "AllAssets ?result1 = {}" "\<not> ManifestFound ?result1"
    by (simp_all add: newScanResult_def)
  have staged: "manifestStage s lib ?base ?initial (?result1\<lparr>AssetBaseURL := url_String ?base\<rparr>) =
      (?result4, {}, None)"
    by (simp add: manifestStage_def r1)
  have fin: "finalErrorOf None (Some ?e) ?initial = Some ?w"
    using fresh [of 789] by (simp add: finalErrorOf_def)
  have cleared: "clearedError (Some ?w) = Some ?w"
    using not_found_wrapper_text
    by (simp add: clearedError_def Errorf_w_def errors_New_def)
  have unfolded: "scanPage s lib baseURL html =
      finishScan (?result4\<lparr>DetectedNextVersion := fst ?detected,
                           DetectedReactVersion := snd ?detected\<rparr>) (Some ?w)"
    using fresh [of 610]
    by (simp add: scanPage_def nd applied r1 Let_def split_beta errors_Is_opt_def staged fin
        combinedJSAssetsOf_def)
  show ?thesis
    unfolding page unfolded using r1 cleared
    by (simp add: finishScan_def)
qed

text \<open>
  The scan of a page without payload that holds the script \<open>main.js\<close>: the script URL
  is discovered, the detector finds no version, \<open>IsNextJS\<close> is false and the terminal
  error is set.
\<close>

theorem ScanTarget_absent_payload_witness:
  "IsNextJS (fst (ScanTarget
       (example_scanner ''https://x.test'' ''https://x.test/'' page_without_payload)
       libs_without_payload ''x.test'')) = False \<and>
   ExecutionError (fst (ScanTarget
       (example_scanner ''https://x.test'' ''https://x.test/'' page_without_payload)
       libs_without_payload ''x.test'')) =
     Some (WrapError
       ''scanner: __NEXT_DATA__ processing error: __NEXT_DATA__ script tag not found''
       (ErrorString 362 ''__NEXT_DATA__ script tag not found'')) \<and>
   findInitialScriptURLs libs_without_payload page_without_payload
       (Some (empty_URL\<lparr>Scheme := ''https'', Host := ''x.test'', Path := ''/''\<rparr>)) =
     {''https://x.test/_next/static/chunks/main.js''}"
proof -
  let ?s = "example_scanner ''https://x.test'' ''https://x.test/'' page_without_payload"
  have f: "fetcher ?s (targetURLOf ''x.test'') = Inr (Inr page_without_payload, ''https://x.test/'')"
    by code_simp
  have p: "url_Parse ''https://x.test/'' =
      Some (empty_URL\<lparr>Scheme := ''https'', Host := ''x.test'', Path := ''/''\<rparr>)"
    by code_simp
  have n: "next_data_text libs_without_payload page_without_payload = Inr []"
    by (simp add: libs_without_payload_def)
  have v: "DetectedNextVersion (fst (ScanTarget ?s libs_without_payload ''x.test'')) = ''Unknown''"
    by code_simp
  have c: "\<not> confidentVersion ''Unknown''"
    by code_simp
  have i: "findInitialScriptURLs libs_without_payload page_without_payload
       (Some (empty_URL\<lparr>Scheme := ''https'', Host := ''x.test'', Path := ''/''\<rparr>)) =
     {''https://x.test/_next/static/chunks/main.js''}"
    by code_simp
  show ?thesis
    using ScanTarget_absent_payload [OF f p n] v c i
    by (simp add: Errorf_w_def errors_New_def not_found_text_def)
qed

text \<open>
  C10, as the code has it: for a target that starts with neither \<open>http://\<close> nor
  \<open>https://\<close> the URL fetched is the target with \<open>https://\<close> before it. When that
  fetch fails, \<open>BaseURL\<close> is the URL that was fetched. When it succeeds and the final URL
  reported by the fetcher parses, \<open>BaseURL\<close> is the parsed final URL written out again;
  when the final URL does not parse, \<open>BaseURL\<close> is the target as the caller gave it.
\<close>

theorem ScanTarget_BaseURL:
  "\<not> strings_HasPrefix t ''http://'' \<Longrightarrow> \<not> strings_HasPrefix t ''https://'' \<Longrightarrow>
   (fetcher s (''https://'' @ t) = Inl err \<longrightarrow>
      BaseURL (fst (ScanTarget s lib t)) = ''https://'' @ t) \<and>
   (fetcher s (''https://'' @ t) = Inr (reader, final) \<and> url_Parse final = Some u \<longrightarrow>
      BaseURL (fst (ScanTarget s lib t)) = url_String u) \<and>
   (fetcher s (''https://'' @ t) = Inr (reader, final) \<and> url_Parse final = None \<longrightarrow>
      BaseURL (fst (ScanTarget s lib t)) = t)"
  by (auto simp: ScanTarget_def targetURLOf_def Let_def newScanResult_def split: sum.splits)

text \<open>
  C10 as stated fails: the fetch succeeds and reports a final URL with a leading space,
  which \<open>url.Parse\<close> rejects (a colon in the first path segment); \<open>BaseURL\<close> is then
  the caller-supplied \<open>x.test\<close>.
\<close>

theorem ScanTarget_BaseURL_counterexample:
  "fetcher (example_scanner ''https://x.test'' '' https://x.test/'' page_without_payload)
     (''https://'' @ ''x.test'') = Inr (Inr page_without_payload, '' https://x.test/'') \<and>
   BaseURL (fst (ScanTarget
     (example_scanner ''https://x.test'' '' https://x.test/'' page_without_payload)
     libs_without_payload ''x.test'')) = ''x.test''"
  by code_simp

text \<open>
  A fetch that is redirected to \<open>https://x.test/start\<close>, and a fetch that fails.
\<close>

theorem ScanTarget_BaseURL_witness:
  "BaseURL (fst (ScanTarget
     (example_scanner ''https://x.test'' ''https://x.test/start'' page_without_payload)
     libs_without_payload ''x.test'')) = ''https://x.test/start'' \<and>
   BaseURL (fst (ScanTarget
     (example_scanner ''https://y.test'' ''https://y.test/'' page_without_payload)
     libs_without_payload ''x.test'')) = ''https://x.test''"
proof -
  let ?s = "example_scanner ''https://x.test'' ''https://x.test/start'' page_without_payload"
  let ?s' = "example_scanner ''https://y.test'' ''https://y.test/'' page_without_payload"
  let ?u = "empty_URL\<lparr>Scheme := ''https'', Host := ''x.test'', Path := ''/start''\<rparr>"
  have h: "\<not> strings_HasPrefix ''x.test'' ''http://''" "\<not> strings_HasPrefix ''x.test'' ''https://''"
    by code_simp+
  have f: "fetcher ?s (''https://'' @ ''x.test'') = Inr (Inr page_without_payload, ''https://x.test/start'')"
    by code_simp
  have p: "url_Parse ''https://x.test/start'' = Some ?u"
    by code_simp
  have s: "url_String ?u = ''https://x.test/start''"
    by code_simp
  have f': "fetcher ?s' (''https://'' @ ''x.test'') =
      Inl (bad_status_error ''https://x.test'' ''https://x.test'' 404)"
    by code_simp
  have a: "BaseURL (fst (ScanTarget ?s libs_without_payload ''x.test'')) = url_String ?u"
    using ScanTarget_BaseURL [OF h, where s = ?s and reader = "Inr page_without_payload"
        and final = "''https://x.test/start''" and u = ?u and lib = libs_without_payload] f p
    by blast
  have b: "BaseURL (fst (ScanTarget ?s' libs_without_payload ''x.test'')) = ''https://'' @ ''x.test''"
    using ScanTarget_BaseURL [OF h, where s = ?s'
        and err = "bad_status_error ''https://x.test'' ''https://x.test'' 404"
        and lib = libs_without_payload] f'
    by blast
  show ?thesis using a b s by simp
qed

section \<open>Properties of the manifest URL\<close>

subsection \<open>Splitting and joining\<close>

lemma split_on_not_Nil [simp]: "split_on c s \<noteq> []"
  by (induction s) (auto split: list.splits)








subsection \<open>Escaping and unescaping a path\<close>





lemma escape_Nil [simp]: "escape [] mode = []"
  by (simp add: escape_def)

lemma escape_Cons:
  "escape (c # s) mode = (if shouldEscape c mode then percent c else [c]) @ escape s mode"
  by (simp add: escape_def)





lemma escape_eq_Nil [simp]: "escape e mode = [] \<longleftrightarrow> e = []"
  by (cases e) (auto simp: escape_Cons percent_def)




subsection \<open>Joining and resolving plain paths\<close>




















text \<open>
  The case left out above. An asset-base path that ends with \<open>/_next\<close> without a slash
  passes the test of line 627, whose branch is written for a base that holds the
  \<open>_next\<close> element already (line 628: just append the rest); the relative reference
  then replaces that very element. The absolute asset prefix
  \<open>https://cdn.test/app/_next\<close> is such an asset base, and its manifest URL lacks the
  \<open>_next\<close> element.
\<close>

lemma manifestURLOf_next_suffix_example:
  "url_Parse ''https://cdn.test/app/_next'' =
     Some (empty_URL\<lparr>Scheme := ''https'', Host := ''cdn.test'', Path := ''/app/_next''\<rparr>) \<and>
   manifestURLOf (empty_URL\<lparr>Scheme := ''https'', Host := ''cdn.test'', Path := ''/app/_next''\<rparr>)
     ''b1'' = ''https://cdn.test/app/static/b1/_buildManifest.js''"
  by code_simp


end
